theory Spec2Isabelle
  imports Complex_Main "HOL-Library.Char_ord" "HOL-Library.List_Lexorder"
begin

section \<open>Data model of \<open>toxicity_analysis_api.py\<close>\<close>

text \<open>
  A Python \<open>str\<close> that arrives with the request is a sequence of Unicode code points, and
  \<open>str.strip\<close> decides by code point, so the query text is a list of code points. Keys,
  labels and messages written in the program are ASCII literals and stay \<open>string\<close>.
  A float is a binary64 number, modelled by the rational number it denotes; each
  arithmetic operation on floats rounds its exact result to the nearest binary64 number
  (\<open>float64\<close> below). NaN, the infinities and overflow are outside the model: the arrays
  that \<open>predict_proba\<close> returns hold finite float64 values, as scikit-learn's do.
\<close>

type_synonym pystr = "nat list"
type_synonym pyfloat = rat

text \<open>
  The exceptions the handler can meet. All of them are instances of \<open>Exception\<close>, which is
  what the handler's \<open>except Exception\<close> catches. \<open>str_exn\<close> is Python's \<open>str(e)\<close>.
\<close>

datatype exn =
    AttributeError string   \<comment> \<open>attribute looked up on \<open>None\<close>\<close>
  | IndexError string       \<comment> \<open>raised by numpy indexing, with its message\<close>
  | Exception string        \<comment> \<open>anything else raised by a pickled object or by loading\<close>

fun str_exn :: "exn \<Rightarrow> string" where
  "str_exn (AttributeError a) =
     [CHR 0x27] @ ''NoneType'' @ [CHR 0x27] @ '' object has no attribute '' @ [CHR 0x27] @ a @ [CHR 0x27]"
| "str_exn (IndexError m) = m"
| "str_exn (Exception m) = m"

datatype dimension = Toxic | SevereToxic | Obscene | Insult | Threat | IdentityHate

text \<open>
  The array \<open>predict_proba\<close> returns: two-dimensional, \<open>shape0\<close> samples by \<open>shape1\<close>
  classes.
\<close>

datatype ndarray = NDArray (shape0: nat) (shape1: nat) (item: "nat \<Rightarrow> nat \<Rightarrow> pyfloat")

text \<open>
  The pickled objects are opaque. A vectorizer is its \<open>transform\<close> method, a model its
  \<open>predict_proba\<close> method; either may raise. \<open>'v\<close> is the type of feature matrices.
\<close>

type_synonym 'v vectorizer = "pystr list \<Rightarrow> exn + 'v"
type_synonym 'v classifier = "'v \<Rightarrow> exn + ndarray"

text \<open>
  The twelve module-level globals; \<open>None\<close> is what a failed load leaves behind. \<open>'x\<close> is
  the type of the vectorizer objects, \<open>'m\<close> that of the model objects.
\<close>

record ('x, 'm) globals =
  tox :: "'x option"
  sev :: "'x option"
  obs :: "'x option"
  ins :: "'x option"
  thr :: "'x option"
  ide :: "'x option"
  tox_model :: "'m option"
  sev_model :: "'m option"
  obs_model :: "'m option"
  ins_model :: "'m option"
  thr_model :: "'m option"
  ide_model :: "'m option"

type_synonym 'v models = "('v vectorizer, 'v classifier) globals"

text \<open>
  The same objects when a method call may also read and change hidden state (a cache, a
  counter, a random generator): \<open>'s\<close> is the state of the process that outlives a request,
  a method takes it and returns it changed. A stateful computation returns its result and
  calls together with the new state.
\<close>

type_synonym ('s, 'v) stateful_vectorizer = "pystr list \<Rightarrow> 's \<Rightarrow> (exn + 'v) \<times> 's"
type_synonym ('s, 'v) stateful_classifier = "'v \<Rightarrow> 's \<Rightarrow> (exn + ndarray) \<times> 's"
type_synonym ('s, 'v) stateful_models =
  "(('s, 'v) stateful_vectorizer, ('s, 'v) stateful_classifier) globals"

text \<open>
  Calls into the pickled objects are the handler's only effects. Each call that is really
  made is recorded, with the object's dimension and its argument.
\<close>

datatype 'v call = Transform dimension "pystr list" | PredictProba dimension 'v

type_synonym ('v, 'a) traced = "(exn + 'a) \<times> 'v call list"
type_synonym ('s, 'v, 'a) stateful = "'s \<Rightarrow> ('v, 'a) traced \<times> 's"

record report =
  original_text :: pystr
  toxicity_results :: "(string \<times> pyfloat) list"

datatype body = ErrorBody string | ReportBody report

type_synonym response = "body \<times> nat"

section \<open>Startup: \<open>load_pickle_file\<close> and the globals\<close>

text \<open>
  \<open>unpickle\<close> stands for \<open>open(file_path, "rb")\<close> followed by \<open>pickle.load\<close>: it yields the
  object or raises. The second component is what the function prints.
\<close>

definition load_pickle_file :: "(string \<Rightarrow> exn + 'a) \<Rightarrow> string \<Rightarrow> string \<Rightarrow> 'a option \<times> string list" where
  "load_pickle_file unpickle file_path file_type =
     (case unpickle file_path of
        Inr obj \<Rightarrow> (Some obj, [])
      | Inl e \<Rightarrow>
          (None, [''Error loading '' @ file_type @ '' from '' @ [CHR 0x27] @ file_path
                  @ [CHR 0x27] @ '': '' @ str_exn e]))"

definition model_dir :: string where
  "model_dir = ''model/''"

definition vect_path :: "dimension \<Rightarrow> string" where
  "vect_path d = model_dir @
     (case d of Toxic \<Rightarrow> ''toxic_vect.pkl'' | SevereToxic \<Rightarrow> ''severe_toxic_vect.pkl''
      | Obscene \<Rightarrow> ''obscene_vect.pkl'' | Insult \<Rightarrow> ''insult_vect.pkl''
      | Threat \<Rightarrow> ''threat_vect.pkl'' | IdentityHate \<Rightarrow> ''identity_hate_vect.pkl'')"

definition model_path :: "dimension \<Rightarrow> string" where
  "model_path d = model_dir @
     (case d of Toxic \<Rightarrow> ''toxic_model.pkl'' | SevereToxic \<Rightarrow> ''severe_toxic_model.pkl''
      | Obscene \<Rightarrow> ''obscene_model.pkl'' | Insult \<Rightarrow> ''insult_model.pkl''
      | Threat \<Rightarrow> ''threat_model.pkl'' | IdentityHate \<Rightarrow> ''identity_hate_model.pkl'')"

definition load_models ::
  "(string \<Rightarrow> exn + 'x) \<Rightarrow> (string \<Rightarrow> exn + 'm) \<Rightarrow> ('x, 'm) globals" where
  "load_models unpickle_vect unpickle_model =
     \<lparr> tox = fst (load_pickle_file unpickle_vect (vect_path Toxic) ''toxic vectorizer''),
       sev = fst (load_pickle_file unpickle_vect (vect_path SevereToxic) ''severe toxic vectorizer''),
       obs = fst (load_pickle_file unpickle_vect (vect_path Obscene) ''obscene vectorizer''),
       ins = fst (load_pickle_file unpickle_vect (vect_path Insult) ''insult vectorizer''),
       thr = fst (load_pickle_file unpickle_vect (vect_path Threat) ''threat vectorizer''),
       ide = fst (load_pickle_file unpickle_vect (vect_path IdentityHate) ''identity hate vectorizer''),
       tox_model = fst (load_pickle_file unpickle_model (model_path Toxic) ''toxic model''),
       sev_model = fst (load_pickle_file unpickle_model (model_path SevereToxic) ''severe toxic model''),
       obs_model = fst (load_pickle_file unpickle_model (model_path Obscene) ''obscene model''),
       ins_model = fst (load_pickle_file unpickle_model (model_path Insult) ''insult model''),
       thr_model = fst (load_pickle_file unpickle_model (model_path Threat) ''threat model''),
       ide_model = fst (load_pickle_file unpickle_model (model_path IdentityHate) ''identity hate model'') \<rparr>"

section \<open>Library operations the handler uses\<close>

text \<open>
  \<open>str.isspace\<close> for one code point, and \<open>str.strip()\<close> without argument: leading and
  trailing whitespace goes, inner whitespace stays.
\<close>

definition isspace :: "nat \<Rightarrow> bool" where
  "isspace c \<longleftrightarrow>
     (9 \<le> c \<and> c \<le> 13) \<or> (28 \<le> c \<and> c \<le> 32) \<or> c = 133 \<or> c = 160 \<or> c = 5760 \<or>
     (8192 \<le> c \<and> c \<le> 8202) \<or> c = 8232 \<or> c = 8233 \<or> c = 8239 \<or> c = 8287 \<or> c = 12288"

definition strip :: "pystr \<Rightarrow> pystr" where
  "strip s = rev (dropWhile isspace (rev (dropWhile isspace s)))"

text \<open>
  \<open>request.args.get('text', '')\<close>: the query parameters are a map from names to values;
  a missing name gives the default.
\<close>

definition args_get :: "(string \<rightharpoonup> pystr) \<Rightarrow> string \<Rightarrow> pystr \<Rightarrow> pystr" where
  "args_get args k dflt = (case args k of None \<Rightarrow> dflt | Some s \<Rightarrow> s)"

text \<open>
  \<open>a[:, 1]\<close> on a two-dimensional array: column 1 of every row, or IndexError when the
  array has fewer than two columns. \<open>p[0]\<close> on the resulting vector: IndexError when it
  is empty.
\<close>

definition column1 :: "ndarray \<Rightarrow> exn + pyfloat list" where
  "column1 a =
     (if shape1 a = 0 then Inl (IndexError ''index 1 is out of bounds for axis 1 with size 0'')
      else if shape1 a = 1 then Inl (IndexError ''index 1 is out of bounds for axis 1 with size 1'')
      else Inr (map (\<lambda>i. item a i 1) [0..<shape0 a]))"

definition item0 :: "pyfloat list \<Rightarrow> exn + pyfloat" where
  "item0 p =
     (case p of [] \<Rightarrow> Inl (IndexError ''index 0 is out of bounds for axis 0 with size 0'')
      | x # _ \<Rightarrow> Inr x)"

text \<open>
  Rounding a real number to an integer, a tie going to the even integer: what \<open>rint\<close> does,
  and what binary64 arithmetic does with the last bit of a significand.
\<close>

definition round_half_even :: "rat \<Rightarrow> int" where
  "round_half_even x =
     (let f = \<lfloor>x\<rfloor>; r = x - of_int f
      in if r < 1 / 2 then f else if 1 / 2 < r then f + 1 else if even f then f else f + 1)"

text \<open>
  The binary64 number nearest to a rational, ties to the even significand. For \<open>x > 0\<close>,
  \<open>exponent64 x\<close> is the \<open>e\<close> with \<open>2 ^ e \<le> x < 2 ^ (e + 1)\<close>, found by halving or doubling
  and kept within the exponent range \<open>-1022 .. 1023\<close>, so that subnormal numbers come out
  right; the significand has 53 bits, so the spacing of binary64 numbers at \<open>x\<close> is
  \<open>2 ^ (e - 52)\<close>.
\<close>

fun halvings :: "nat \<Rightarrow> rat \<Rightarrow> nat" where
  "halvings 0 x = 0"
| "halvings (Suc n) x = (if x < 2 then 0 else Suc (halvings n (x / 2)))"

fun doublings :: "nat \<Rightarrow> rat \<Rightarrow> nat" where
  "doublings 0 x = 0"
| "doublings (Suc n) x = (if 1 \<le> x then 0 else Suc (doublings n (2 * x)))"

definition exponent64 :: "rat \<Rightarrow> int" where
  "exponent64 x = (if 1 \<le> x then int (halvings 1023 x) else - int (doublings 1022 x))"

definition pow2 :: "int \<Rightarrow> rat" where
  "pow2 e = (if 0 \<le> e then 2 ^ nat e else 1 / 2 ^ nat (- e))"

definition float64 :: "rat \<Rightarrow> pyfloat" where
  "float64 x =
     (if x = 0 then 0
      else let q = pow2 (exponent64 \<bar>x\<bar> - 52) in of_int (round_half_even (x / q)) * q)"

text \<open>
  \<open>round(x, ndigits)\<close> on a numpy float64 scalar, for \<open>ndigits > 0\<close>: numpy multiplies by
  \<open>10 ^ ndigits\<close>, applies \<open>rint\<close> and divides by \<open>10 ^ ndigits\<close>, each step in binary64
  (\<open>100\<close> is a binary64 number, and so is every integer that \<open>rint\<close> can return here).
\<close>

definition py_round :: "pyfloat \<Rightarrow> nat \<Rightarrow> pyfloat" where
  "py_round x ndigits =
     float64 (of_int (round_half_even (float64 (x * 10 ^ ndigits))) / 10 ^ ndigits)"

section \<open>The handler \<open>PredictToxicity.get\<close>\<close>

text \<open>
  Statements of the \<open>try\<close> block run in sequence; the first one that raises ends the block,
  and the calls made so far stay made.
\<close>

definition and_then :: "('v, 'a) traced \<Rightarrow> ('a \<Rightarrow> ('v, 'b) traced) \<Rightarrow> ('v, 'b) traced" where
  "and_then m f =
     (case m of
        (Inl e, cs) \<Rightarrow> (Inl e, cs)
      | (Inr a, cs) \<Rightarrow> (case f a of (r, cs') \<Rightarrow> (r, cs @ cs')))"

definition no_call :: "exn + 'a \<Rightarrow> ('v, 'a) traced" where
  "no_call r = (r, [])"

text \<open>\<open>obj.transform(data)\<close> and \<open>obj.predict_proba(vect)\<close> on a global that may be \<open>None\<close>.\<close>

definition transform :: "dimension \<Rightarrow> 'v vectorizer option \<Rightarrow> pystr list \<Rightarrow> ('v, 'v) traced" where
  "transform d obj data =
     (case obj of
        None \<Rightarrow> (Inl (AttributeError ''transform''), [])
      | Some v \<Rightarrow> (v data, [Transform d data]))"

definition predict_proba :: "dimension \<Rightarrow> 'v classifier option \<Rightarrow> 'v \<Rightarrow> ('v, ndarray) traced" where
  "predict_proba d obj vect =
     (case obj of
        None \<Rightarrow> (Inl (AttributeError ''predict_proba''), [])
      | Some m \<Rightarrow> (m vect, [PredictProba d vect]))"

text \<open>
  \<open>jsonify(response)\<close> with Flask's defaults: the body lists the keys of every dictionary
  in sorted order (\<open>sort_keys\<close> is on unless the application turns it off, and this one
  does not). Strings compare by code point. The two outer keys, \<open>original_text\<close> and
  \<open>toxicity_results\<close>, are in sorted order already. A str and float64 values always
  serialise, so on the values of this model the call does not raise.
\<close>

definition jsonify :: "report \<Rightarrow> report" where
  "jsonify response =
     response \<lparr> toxicity_results := sort_key fst (toxicity_results response) \<rparr>"

text \<open>
  The body of the \<open>try\<close> block, statement by statement, down to
  \<open>return jsonify(response)\<close>.
\<close>

definition get_try :: "'v models \<Rightarrow> pystr \<Rightarrow> pystr list \<Rightarrow> ('v, report) traced" where
  "get_try M text data =
     and_then (transform Toxic (tox M) data) (\<lambda>vect.
     and_then (predict_proba Toxic (tox_model M) vect) (\<lambda>proba.
     and_then (no_call (column1 proba)) (\<lambda>pred_tox.
     and_then (transform SevereToxic (sev M) data) (\<lambda>vect.
     and_then (predict_proba SevereToxic (sev_model M) vect) (\<lambda>proba.
     and_then (no_call (column1 proba)) (\<lambda>pred_sev.
     and_then (transform Obscene (obs M) data) (\<lambda>vect.
     and_then (predict_proba Obscene (obs_model M) vect) (\<lambda>proba.
     and_then (no_call (column1 proba)) (\<lambda>pred_obs.
     and_then (transform Threat (thr M) data) (\<lambda>vect.
     and_then (predict_proba Threat (thr_model M) vect) (\<lambda>proba.
     and_then (no_call (column1 proba)) (\<lambda>pred_thr.
     and_then (transform Insult (ins M) data) (\<lambda>vect.
     and_then (predict_proba Insult (ins_model M) vect) (\<lambda>proba.
     and_then (no_call (column1 proba)) (\<lambda>pred_ins.
     and_then (transform IdentityHate (ide M) data) (\<lambda>vect.
     and_then (predict_proba IdentityHate (ide_model M) vect) (\<lambda>proba.
     and_then (no_call (column1 proba)) (\<lambda>pred_ide.
     and_then (no_call (item0 pred_tox)) (\<lambda>x_tox.
     and_then (no_call (item0 pred_sev)) (\<lambda>x_sev.
     and_then (no_call (item0 pred_obs)) (\<lambda>x_obs.
     and_then (no_call (item0 pred_ins)) (\<lambda>x_ins.
     and_then (no_call (item0 pred_thr)) (\<lambda>x_thr.
     and_then (no_call (item0 pred_ide)) (\<lambda>x_ide.
       let out_tox = py_round x_tox 2;
           out_sev = py_round x_sev 2;
           out_obs = py_round x_obs 2;
           out_ins = py_round x_ins 2;
           out_thr = py_round x_thr 2;
           out_ide = py_round x_ide 2;
           response =
             \<lparr> original_text = text,
               toxicity_results =
                 [(''Prob (Toxic)'', out_tox),
                  (''Prob (Severe Toxic)'', out_sev),
                  (''Prob (Obscene)'', out_obs),
                  (''Prob (Insult)'', out_ins),
                  (''Prob (Threat)'', out_thr),
                  (''Prob (Identity Hate)'', out_ide)] \<rparr>
       in no_call (Inr (jsonify response))))))))))))))))))))))))))"

text \<open>
  The handler: the response body with its HTTP status, and the calls made on the way.
  \<open>not text\<close> holds of the empty string only.
\<close>

definition get :: "'v models \<Rightarrow> (string \<rightharpoonup> pystr) \<Rightarrow> response \<times> 'v call list" where
  "get M args =
     (let text = strip (args_get args ''text'' [])
      in if text = [] then ((ErrorBody ''Text is required'', 400), [])
         else
           let data = [text]
           in case get_try M text data of
                (Inr body, calls) \<Rightarrow> ((ReportBody body, 200), calls)
              | (Inl e, calls) \<Rightarrow>
                  ((ErrorBody (''Error during prediction: '' @ str_exn e), 500), calls))"

section \<open>The handler with stateful objects\<close>

text \<open>
  The same handler, statement by statement, when the pickled objects are stateful: each
  call into an object takes the state the previous call left, and the handler returns the
  state the request leaves behind. The handler itself assigns only local variables, so it
  changes the state through these calls alone.
\<close>

definition and_then_st ::
  "('s, 'v, 'a) stateful \<Rightarrow> ('a \<Rightarrow> ('s, 'v, 'b) stateful) \<Rightarrow> ('s, 'v, 'b) stateful" where
  "and_then_st m f s =
     (case m s of
        ((Inl e, cs), s') \<Rightarrow> ((Inl e, cs), s')
      | ((Inr a, cs), s') \<Rightarrow> (case f a s' of ((r, cs'), s'') \<Rightarrow> ((r, cs @ cs'), s'')))"

definition no_call_st :: "exn + 'a \<Rightarrow> ('s, 'v, 'a) stateful" where
  "no_call_st r s = ((r, []), s)"

definition transform_st ::
  "dimension \<Rightarrow> ('s, 'v) stateful_vectorizer option \<Rightarrow> pystr list \<Rightarrow> ('s, 'v, 'v) stateful" where
  "transform_st d obj data s =
     (case obj of
        None \<Rightarrow> ((Inl (AttributeError ''transform''), []), s)
      | Some v \<Rightarrow> (case v data s of (r, s') \<Rightarrow> ((r, [Transform d data]), s')))"

definition predict_proba_st ::
  "dimension \<Rightarrow> ('s, 'v) stateful_classifier option \<Rightarrow> 'v \<Rightarrow> ('s, 'v, ndarray) stateful" where
  "predict_proba_st d obj vect s =
     (case obj of
        None \<Rightarrow> ((Inl (AttributeError ''predict_proba''), []), s)
      | Some m \<Rightarrow> (case m vect s of (r, s') \<Rightarrow> ((r, [PredictProba d vect]), s')))"

definition get_try_st ::
  "('s, 'v) stateful_models \<Rightarrow> pystr \<Rightarrow> pystr list \<Rightarrow> ('s, 'v, report) stateful" where
  "get_try_st M text data =
     and_then_st (transform_st Toxic (tox M) data) (\<lambda>vect.
     and_then_st (predict_proba_st Toxic (tox_model M) vect) (\<lambda>proba.
     and_then_st (no_call_st (column1 proba)) (\<lambda>pred_tox.
     and_then_st (transform_st SevereToxic (sev M) data) (\<lambda>vect.
     and_then_st (predict_proba_st SevereToxic (sev_model M) vect) (\<lambda>proba.
     and_then_st (no_call_st (column1 proba)) (\<lambda>pred_sev.
     and_then_st (transform_st Obscene (obs M) data) (\<lambda>vect.
     and_then_st (predict_proba_st Obscene (obs_model M) vect) (\<lambda>proba.
     and_then_st (no_call_st (column1 proba)) (\<lambda>pred_obs.
     and_then_st (transform_st Threat (thr M) data) (\<lambda>vect.
     and_then_st (predict_proba_st Threat (thr_model M) vect) (\<lambda>proba.
     and_then_st (no_call_st (column1 proba)) (\<lambda>pred_thr.
     and_then_st (transform_st Insult (ins M) data) (\<lambda>vect.
     and_then_st (predict_proba_st Insult (ins_model M) vect) (\<lambda>proba.
     and_then_st (no_call_st (column1 proba)) (\<lambda>pred_ins.
     and_then_st (transform_st IdentityHate (ide M) data) (\<lambda>vect.
     and_then_st (predict_proba_st IdentityHate (ide_model M) vect) (\<lambda>proba.
     and_then_st (no_call_st (column1 proba)) (\<lambda>pred_ide.
     and_then_st (no_call_st (item0 pred_tox)) (\<lambda>x_tox.
     and_then_st (no_call_st (item0 pred_sev)) (\<lambda>x_sev.
     and_then_st (no_call_st (item0 pred_obs)) (\<lambda>x_obs.
     and_then_st (no_call_st (item0 pred_ins)) (\<lambda>x_ins.
     and_then_st (no_call_st (item0 pred_thr)) (\<lambda>x_thr.
     and_then_st (no_call_st (item0 pred_ide)) (\<lambda>x_ide.
       let out_tox = py_round x_tox 2;
           out_sev = py_round x_sev 2;
           out_obs = py_round x_obs 2;
           out_ins = py_round x_ins 2;
           out_thr = py_round x_thr 2;
           out_ide = py_round x_ide 2;
           response =
             \<lparr> original_text = text,
               toxicity_results =
                 [(''Prob (Toxic)'', out_tox),
                  (''Prob (Severe Toxic)'', out_sev),
                  (''Prob (Obscene)'', out_obs),
                  (''Prob (Insult)'', out_ins),
                  (''Prob (Threat)'', out_thr),
                  (''Prob (Identity Hate)'', out_ide)] \<rparr>
       in no_call_st (Inr (jsonify response))))))))))))))))))))))))))"

definition get_st ::
  "('s, 'v) stateful_models \<Rightarrow> (string \<rightharpoonup> pystr) \<Rightarrow> 's \<Rightarrow> (response \<times> 'v call list) \<times> 's" where
  "get_st M args s =
     (let text = strip (args_get args ''text'' [])
      in if text = [] then (((ErrorBody ''Text is required'', 400), []), s)
         else
           let data = [text]
           in case get_try_st M text data s of
                ((Inr body, calls), s') \<Rightarrow> (((ReportBody body, 200), calls), s')
              | ((Inl e, calls), s') \<Rightarrow>
                  (((ErrorBody (''Error during prediction: '' @ str_exn e), 500), calls), s'))"

text \<open>
  A method is pure when it neither changes the state nor depends on it; models are pure
  when every loaded object is. From pure objects one reads off the functions they compute
  (\<open>snapshot\<close>), and a function is made an object by letting it pass the state through
  (\<open>stateless\<close>).
\<close>

definition pure_method :: "('a \<Rightarrow> 's \<Rightarrow> 'r \<times> 's) \<Rightarrow> bool" where
  "pure_method f \<longleftrightarrow> (\<forall>x s. snd (f x s) = s) \<and> (\<forall>x s s'. fst (f x s) = fst (f x s'))"

definition stateless :: "('a \<Rightarrow> 'r) \<Rightarrow> 'a \<Rightarrow> 's \<Rightarrow> 'r \<times> 's" where
  "stateless f x s = (f x, s)"

definition stateless_models :: "'v models \<Rightarrow> ('s, 'v) stateful_models" where
  "stateless_models M =
     \<lparr> tox = map_option stateless (tox M), sev = map_option stateless (sev M),
       obs = map_option stateless (obs M), ins = map_option stateless (ins M),
       thr = map_option stateless (thr M), ide = map_option stateless (ide M),
       tox_model = map_option stateless (tox_model M),
       sev_model = map_option stateless (sev_model M),
       obs_model = map_option stateless (obs_model M),
       ins_model = map_option stateless (ins_model M),
       thr_model = map_option stateless (thr_model M),
       ide_model = map_option stateless (ide_model M) \<rparr>"

definition snapshot :: "'s \<Rightarrow> ('s, 'v) stateful_models \<Rightarrow> 'v models" where
  "snapshot s M =
     \<lparr> tox = map_option (\<lambda>f x. fst (f x s)) (tox M),
       sev = map_option (\<lambda>f x. fst (f x s)) (sev M),
       obs = map_option (\<lambda>f x. fst (f x s)) (obs M),
       ins = map_option (\<lambda>f x. fst (f x s)) (ins M),
       thr = map_option (\<lambda>f x. fst (f x s)) (thr M),
       ide = map_option (\<lambda>f x. fst (f x s)) (ide M),
       tox_model = map_option (\<lambda>f x. fst (f x s)) (tox_model M),
       sev_model = map_option (\<lambda>f x. fst (f x s)) (sev_model M),
       obs_model = map_option (\<lambda>f x. fst (f x s)) (obs_model M),
       ins_model = map_option (\<lambda>f x. fst (f x s)) (ins_model M),
       thr_model = map_option (\<lambda>f x. fst (f x s)) (thr_model M),
       ide_model = map_option (\<lambda>f x. fst (f x s)) (ide_model M) \<rparr>"

section \<open>Reading the handler dimension by dimension\<close>

text \<open>The vectorizer global and the model global that the handler uses for a dimension.\<close>

definition vectorizer_of :: "('x, 'm) globals \<Rightarrow> dimension \<Rightarrow> 'x option" where
  "vectorizer_of M d =
     (case d of Toxic \<Rightarrow> tox M | SevereToxic \<Rightarrow> sev M | Obscene \<Rightarrow> obs M
      | Insult \<Rightarrow> ins M | Threat \<Rightarrow> thr M | IdentityHate \<Rightarrow> ide M)"

definition model_of :: "('x, 'm) globals \<Rightarrow> dimension \<Rightarrow> 'm option" where
  "model_of M d =
     (case d of Toxic \<Rightarrow> tox_model M | SevereToxic \<Rightarrow> sev_model M | Obscene \<Rightarrow> obs_model M
      | Insult \<Rightarrow> ins_model M | Threat \<Rightarrow> thr_model M | IdentityHate \<Rightarrow> ide_model M)"

definition pure_models :: "('s, 'v) stateful_models \<Rightarrow> bool" where
  "pure_models M \<longleftrightarrow>
     (\<forall>d. (case vectorizer_of M d of None \<Rightarrow> True | Some v \<Rightarrow> pure_method v) \<and>
          (case model_of M d of None \<Rightarrow> True | Some m \<Rightarrow> pure_method m))"

text \<open>A call is on an object that was loaded.\<close>

definition on_loaded :: "('x, 'm) globals \<Rightarrow> 'v call \<Rightarrow> bool" where
  "on_loaded M c =
     (case c of
        Transform d _ \<Rightarrow> vectorizer_of M d \<noteq> None
      | PredictProba d _ \<Rightarrow> vectorizer_of M d \<noteq> None \<and> model_of M d \<noteq> None)"

text \<open>
  What the \<open>try\<close> block computes for one dimension before rounding: for Toxic these are
  lines 96, 97 and the \<open>pred_tox[0]\<close> of line 115. \<open>pred_column\<close> stops after the slice
  \<open>[:, 1]\<close>, \<open>score\<close> goes on to element 0. Their agreement with \<open>get_try\<close> is proved below.
\<close>

definition on_result :: "exn + 'a \<Rightarrow> ('a \<Rightarrow> exn + 'b) \<Rightarrow> exn + 'b" where
  "on_result r k = (case r of Inl e \<Rightarrow> Inl e | Inr a \<Rightarrow> k a)"

definition pred_column :: "'v models \<Rightarrow> dimension \<Rightarrow> pystr list \<Rightarrow> exn + pyfloat list" where
  "pred_column M d data =
     (case vectorizer_of M d of
        None \<Rightarrow> Inl (AttributeError ''transform'')
      | Some v \<Rightarrow>
          (case v data of
             Inl e \<Rightarrow> Inl e
           | Inr vect \<Rightarrow>
               (case model_of M d of
                  None \<Rightarrow> Inl (AttributeError ''predict_proba'')
                | Some m \<Rightarrow>
                    (case m vect of Inl e \<Rightarrow> Inl e | Inr proba \<Rightarrow> column1 proba))))"

definition score :: "'v models \<Rightarrow> dimension \<Rightarrow> pystr list \<Rightarrow> exn + pyfloat" where
  "score M d data =
     (case vectorizer_of M d of
        None \<Rightarrow> Inl (AttributeError ''transform'')
      | Some v \<Rightarrow>
          (case v data of
             Inl e \<Rightarrow> Inl e
           | Inr vect \<Rightarrow>
               (case model_of M d of
                  None \<Rightarrow> Inl (AttributeError ''predict_proba'')
                | Some m \<Rightarrow>
                    (case m vect of
                       Inl e \<Rightarrow> Inl e
                     | Inr proba \<Rightarrow>
                         (case column1 proba of Inl e \<Rightarrow> Inl e | Inr pred \<Rightarrow> item0 pred)))))"

text \<open>
  The key of a dimension in \<open>toxicity_results\<close>, the response dictionary of lines 123-133
  built from six unrounded values, and the body that \<open>jsonify\<close> makes of it.
\<close>

definition label :: "dimension \<Rightarrow> string" where
  "label d =
     (case d of Toxic \<Rightarrow> ''Prob (Toxic)'' | SevereToxic \<Rightarrow> ''Prob (Severe Toxic)''
      | Obscene \<Rightarrow> ''Prob (Obscene)'' | Insult \<Rightarrow> ''Prob (Insult)''
      | Threat \<Rightarrow> ''Prob (Threat)'' | IdentityHate \<Rightarrow> ''Prob (Identity Hate)'')"

definition response_dict :: "pystr \<Rightarrow> (dimension \<Rightarrow> pyfloat) \<Rightarrow> report" where
  "response_dict text x =
     \<lparr> original_text = text,
       toxicity_results =
         [(''Prob (Toxic)'', py_round (x Toxic) 2),
          (''Prob (Severe Toxic)'', py_round (x SevereToxic) 2),
          (''Prob (Obscene)'', py_round (x Obscene) 2),
          (''Prob (Insult)'', py_round (x Insult) 2),
          (''Prob (Threat)'', py_round (x Threat) 2),
          (''Prob (Identity Hate)'', py_round (x IdentityHate) 2)] \<rparr>"

definition rounded_report :: "pystr \<Rightarrow> (dimension \<Rightarrow> pyfloat) \<Rightarrow> report" where
  "rounded_report text x = jsonify (response_dict text x)"

text \<open>
  A call is well paired when a transform call is on the request's data and a
  predict_proba call is on what the vectorizer of the same dimension returned for that data.
\<close>

definition well_paired :: "'v models \<Rightarrow> pystr list \<Rightarrow> 'v call \<Rightarrow> bool" where
  "well_paired M data c =
     (case c of
        Transform d dat \<Rightarrow> dat = data \<and> vectorizer_of M d \<noteq> None
      | PredictProba d vect \<Rightarrow>
          model_of M d \<noteq> None \<and>
          (case vectorizer_of M d of None \<Rightarrow> False | Some v \<Rightarrow> v data = Inr vect))"

text \<open>
  A stateful computation that returns a value, in whatever state it is started, only if
  \<open>Q\<close> holds.
\<close>

definition returns_only_if :: "bool \<Rightarrow> ('s, 'v, 'a) stateful \<Rightarrow> bool" where
  "returns_only_if Q m \<longleftrightarrow> (\<forall>s b. fst (fst (m s)) = Inr b \<longrightarrow> Q)"

section \<open>Test doubles\<close>

text \<open>
  A vectorizer that returns a number, a model that returns one row with the given
  probability in the positive-class column, and the six pairs with the probabilities of
  the specification's worked example.
\<close>

definition stub_vect :: "nat \<Rightarrow> nat vectorizer" where
  "stub_vect k data = Inr (k + length (concat data))"

definition stub_model :: "pyfloat \<Rightarrow> nat classifier" where
  "stub_model p vect = Inr (NDArray 1 2 (\<lambda>i j. if j = 1 then p else 1 - p))"

definition stub_models :: "nat models" where
  "stub_models =
     \<lparr> tox = Some (stub_vect 100), sev = Some (stub_vect 200), obs = Some (stub_vect 300),
       ins = Some (stub_vect 400), thr = Some (stub_vect 500), ide = Some (stub_vect 600),
       tox_model = Some (stub_model (float64 (873 / 1000))),
       sev_model = Some (stub_model (float64 (12 / 1000))),
       obs_model = Some (stub_model (float64 (501 / 1000))),
       ins_model = Some (stub_model (float64 (499 / 1000))),
       thr_model = Some (stub_model (float64 (4 / 1000))),
       ide_model = Some (stub_model (float64 (200 / 1000))) \<rparr>"

definition stub_prob :: "dimension \<Rightarrow> pyfloat" where
  "stub_prob d = float64 (case d of Toxic \<Rightarrow> 873 / 1000 | SevereToxic \<Rightarrow> 12 / 1000
     | Obscene \<Rightarrow> 501 / 1000 | Insult \<Rightarrow> 499 / 1000 | Threat \<Rightarrow> 4 / 1000
     | IdentityHate \<Rightarrow> 200 / 1000)"

text \<open>The same models, except that the Threat vectorizer raises.\<close>

definition failing_models :: "nat models" where
  "failing_models = stub_models \<lparr> thr := Some (\<lambda>data. Inl (Exception ''boom'')) \<rparr>"

text \<open>
  The same models, except that the Toxic model returns the float64 number written
  \<open>0.015\<close>, which lies just below fifteen thousandths.
\<close>

definition tie_models :: "nat models" where
  "tie_models = stub_models \<lparr> tox_model := Some (stub_model (float64 (15 / 1000))) \<rparr>"

text \<open>
  Models whose answers show which vectorizer and which model produced them: the
  vectorizer of the \<open>k\<close>-th dimension returns \<open>100 * k\<close> plus the number of code points,
  and its model turns a feature value \<open>n\<close> into the probability \<open>(n + k) / 1024\<close>.
\<close>

definition echo_model :: "nat \<Rightarrow> nat classifier" where
  "echo_model k vect =
     Inr (NDArray 1 2 (\<lambda>i j. if j = 1 then of_nat (vect + k) / 1024
                               else 1 - of_nat (vect + k) / 1024))"

definition echo_models :: "nat models" where
  "echo_models =
     \<lparr> tox = Some (stub_vect 100), sev = Some (stub_vect 200), obs = Some (stub_vect 300),
       ins = Some (stub_vect 400), thr = Some (stub_vect 500), ide = Some (stub_vect 600),
       tox_model = Some (echo_model 1), sev_model = Some (echo_model 2),
       obs_model = Some (echo_model 3), ins_model = Some (echo_model 4),
       thr_model = Some (echo_model 5), ide_model = Some (echo_model 6) \<rparr>"

text \<open>A model directory in which \<open>toxic_model.pkl\<close> is missing.\<close>

definition stub_unpickle_vect :: "string \<Rightarrow> exn + nat vectorizer" where
  "stub_unpickle_vect file_path = Inr (stub_vect 7)"

definition stub_unpickle_model :: "string \<Rightarrow> exn + nat classifier" where
  "stub_unpickle_model file_path =
     (if file_path = ''model/toxic_model.pkl''
      then Inl (Exception ''[Errno 2] No such file or directory'')
      else Inr (stub_model (1 / 2)))"

text \<open>
  A model directory in which \<open>threat_vect.pkl\<close> is missing; the objects it does hold
  pass the state through.
\<close>

definition lost_vect_unpickle :: "string \<Rightarrow> exn + (nat, nat) stateful_vectorizer" where
  "lost_vect_unpickle file_path =
     (if file_path = ''model/threat_vect.pkl''
      then Inl (Exception ''[Errno 2] No such file or directory'')
      else Inr (stateless (stub_vect 7)))"

definition kept_model_unpickle :: "string \<Rightarrow> exn + (nat, nat) stateful_classifier" where
  "kept_model_unpickle file_path = Inr (stateless (stub_model (1 / 2)))"

text \<open>
  A classifier that is not a pure function: it counts its calls, and answers the first
  call with the probability one quarter and every later call with three quarters. The
  models \<open>counting_models\<close> are \<open>stub_models\<close> with this classifier for Toxic.
\<close>

definition counting_model :: "(nat, nat) stateful_classifier" where
  "counting_model vect s =
     (Inr (NDArray 1 2 (\<lambda>i j. if j = 1 then (if s = 0 then 1 / 4 else 3 / 4)
                               else (if s = 0 then 3 / 4 else 1 / 4))),
      Suc s)"

definition counting_models :: "(nat, nat) stateful_models" where
  "counting_models = stateless_models stub_models \<lparr> tox_model := Some counting_model \<rparr>"

section \<open>Trimming\<close>

lemma dropWhile_all: "(\<forall>c \<in> set s. P c) \<Longrightarrow> dropWhile P s = []"
  by (induction s) auto

lemma strip_all_space: "(\<forall>c \<in> set s. isspace c) \<Longrightarrow> strip s = []"
  by (simp add: strip_def dropWhile_all)

lemma strip_empty_iff: "strip s = [] \<longleftrightarrow> (\<forall>c \<in> set s. isspace c)"
proof
  assume "strip s = []"
  then have all: "\<forall>c \<in> set (dropWhile isspace s). isspace c"
    by (simp add: strip_def)
  have "dropWhile isspace s = []"
  proof (rule ccontr)
    assume ne: "dropWhile isspace s \<noteq> []"
    then have "\<not> isspace (hd (dropWhile isspace s))"
      by (rule hd_dropWhile)
    moreover have "hd (dropWhile isspace s) \<in> set (dropWhile isspace s)"
      using ne by simp
    ultimately show False using all by blast
  qed
  then show "\<forall>c \<in> set s. isspace c"
    by simp
next
  assume "\<forall>c \<in> set s. isspace c"
  then show "strip s = []" by (rule strip_all_space)
qed



section \<open>Rounding\<close>

lemma floor_rat_numeral_div [simp]:
  "\<lfloor>(numeral a :: rat) / numeral b\<rfloor> = numeral a div numeral b"
  using floor_divide_of_int_eq [of "numeral a" "numeral b", where ?'a = rat] by simp

lemma round_half_even_near:
  "\<bar>of_int (round_half_even x) - x\<bar> \<le> 1 / 2"
proof -
  have "of_int \<lfloor>x\<rfloor> \<le> x" "x < of_int \<lfloor>x\<rfloor> + 1"
    by linarith+
  then show ?thesis
    by (auto simp: round_half_even_def Let_def)
qed

lemma round_half_even_tie:
  "\<bar>of_int (round_half_even x) - x\<bar> = 1 / 2 \<Longrightarrow> even (round_half_even x)"
proof -
  have "of_int \<lfloor>x\<rfloor> \<le> x" "x < of_int \<lfloor>x\<rfloor> + 1"
    by linarith+
  then show "\<bar>of_int (round_half_even x) - x\<bar> = 1 / 2 \<Longrightarrow> even (round_half_even x)"
    by (auto simp: round_half_even_def Let_def split: if_splits)
qed


section \<open>Binary64 arithmetic\<close>

lemma halvings_numeral [simp]:
  "halvings (numeral k) x = (if x < 2 then 0 else Suc (halvings (pred_numeral k) (x / 2)))"
  by (simp add: numeral_eq_Suc)

lemma doublings_numeral [simp]:
  "doublings (numeral k) x = (if 1 \<le> x then 0 else Suc (doublings (pred_numeral k) (2 * x)))"
  by (simp add: numeral_eq_Suc)

lemmas float64_eval = float64_def exponent64_def pow2_def round_half_even_def Let_def






section \<open>The result of the \<open>try\<close> block\<close>

lemma on_result_simps [simp]:
  "on_result (Inl e) k = Inl e" "on_result (Inr a) k = k a"
  by (simp_all add: on_result_def)

lemma on_result_Inr_iff: "on_result r k = Inr b \<longleftrightarrow> (\<exists>a. r = Inr a \<and> k a = Inr b)"
  by (cases r) simp_all

lemma score_pred_column: "score M d data = on_result (pred_column M d data) item0"
  by (simp add: score_def pred_column_def on_result_def split: option.splits sum.splits)

lemma score_InrD:
  "score M d data = Inr x \<Longrightarrow>
   \<exists>v vect m proba pred. vectorizer_of M d = Some v \<and> v data = Inr vect \<and>
     model_of M d = Some m \<and> m vect = Inr proba \<and> column1 proba = Inr pred \<and>
     item0 pred = Inr x"
  by (auto simp: score_def split: option.splits sum.splits)

lemma globals_of:
  "tox M = vectorizer_of M Toxic" "sev M = vectorizer_of M SevereToxic"
  "obs M = vectorizer_of M Obscene" "ins M = vectorizer_of M Insult"
  "thr M = vectorizer_of M Threat" "ide M = vectorizer_of M IdentityHate"
  "tox_model M = model_of M Toxic" "sev_model M = model_of M SevereToxic"
  "obs_model M = model_of M Obscene" "ins_model M = model_of M Insult"
  "thr_model M = model_of M Threat" "ide_model M = model_of M IdentityHate"
  by (simp_all add: vectorizer_of_def model_of_def)

lemma fst_dimension_step:
  "fst (and_then (transform d (vectorizer_of M d) data) (\<lambda>vect.
        and_then (predict_proba d (model_of M d) vect) (\<lambda>proba.
        and_then (no_call (column1 proba)) K))) =
   on_result (pred_column M d data) (\<lambda>pred. fst (K pred))"
  by (simp add: and_then_def transform_def predict_proba_def no_call_def pred_column_def
      on_result_def split: option.splits sum.splits prod.splits)

lemma fst_item_step:
  "fst (and_then (no_call r) K) = on_result r (\<lambda>y. fst (K y))"
  by (simp add: and_then_def no_call_def on_result_def split: sum.splits prod.splits)

lemma fst_no_call: "fst (no_call r) = r"
  by (simp add: no_call_def)

lemma fst_get_try:
  "fst (get_try M text data) =
     on_result (pred_column M Toxic data) (\<lambda>pred_tox.
     on_result (pred_column M SevereToxic data) (\<lambda>pred_sev.
     on_result (pred_column M Obscene data) (\<lambda>pred_obs.
     on_result (pred_column M Threat data) (\<lambda>pred_thr.
     on_result (pred_column M Insult data) (\<lambda>pred_ins.
     on_result (pred_column M IdentityHate data) (\<lambda>pred_ide.
     on_result (item0 pred_tox) (\<lambda>x_tox.
     on_result (item0 pred_sev) (\<lambda>x_sev.
     on_result (item0 pred_obs) (\<lambda>x_obs.
     on_result (item0 pred_ins) (\<lambda>x_ins.
     on_result (item0 pred_thr) (\<lambda>x_thr.
     on_result (item0 pred_ide) (\<lambda>x_ide.
        Inr (jsonify \<lparr> original_text = text,
              toxicity_results =
                [(''Prob (Toxic)'', py_round x_tox 2),
                 (''Prob (Severe Toxic)'', py_round x_sev 2),
                 (''Prob (Obscene)'', py_round x_obs 2),
                 (''Prob (Insult)'', py_round x_ins 2),
                 (''Prob (Threat)'', py_round x_thr 2),
                 (''Prob (Identity Hate)'', py_round x_ide 2)] \<rparr>)))))))))))))"
  unfolding get_try_def globals_of fst_dimension_step fst_item_step Let_def fst_no_call ..

lemma chain_InrD:
  assumes "on_result A1 (\<lambda>p1. on_result A2 (\<lambda>p2. on_result A3 (\<lambda>p3.
           on_result A4 (\<lambda>p4. on_result A5 (\<lambda>p5. on_result A6 (\<lambda>p6.
           on_result (I p1) (\<lambda>y1. on_result (I p2) (\<lambda>y2. on_result (I p3) (\<lambda>y3.
           on_result (I p5) (\<lambda>y5. on_result (I p4) (\<lambda>y4. on_result (I p6) (\<lambda>y6.
             Inr (F y1 y2 y3 y5 y4 y6))))))))))))) = Inr rep"
  shows "\<exists>y1 y2 y3 y4 y5 y6.
           on_result A1 I = Inr y1 \<and> on_result A2 I = Inr y2 \<and> on_result A3 I = Inr y3 \<and>
           on_result A4 I = Inr y4 \<and> on_result A5 I = Inr y5 \<and> on_result A6 I = Inr y6 \<and>
           rep = F y1 y2 y3 y5 y4 y6"
proof -
  from assms obtain p1 p2 p3 p4 p5 p6 where
    p: "A1 = Inr p1" "A2 = Inr p2" "A3 = Inr p3" "A4 = Inr p4" "A5 = Inr p5" "A6 = Inr p6"
    by (cases A1; cases A2; cases A3; cases A4; cases A5; cases A6) simp_all
  from assms [unfolded p on_result_simps] obtain y1 y2 y3 y4 y5 y6 where
    y: "I p1 = Inr y1" "I p2 = Inr y2" "I p3 = Inr y3" "I p4 = Inr y4" "I p5 = Inr y5"
       "I p6 = Inr y6"
    by (cases "I p1"; cases "I p2"; cases "I p3"; cases "I p4"; cases "I p5"; cases "I p6")
      simp_all
  from assms have "rep = F y1 y2 y3 y5 y4 y6"
    by (simp add: p y)
  then show ?thesis
    by (simp add: p y)
qed

lemma get_try_Inr_scores:
  assumes "fst (get_try M text data) = Inr rep"
  shows "\<exists>x. (\<forall>d. score M d data = Inr (x d)) \<and> rep = rounded_report text x"
proof -
  from chain_InrD [OF assms [unfolded fst_get_try]] obtain y1 y2 y3 y4 y5 y6 where
    s: "score M Toxic data = Inr y1" "score M SevereToxic data = Inr y2"
       "score M Obscene data = Inr y3" "score M Threat data = Inr y4"
       "score M Insult data = Inr y5" "score M IdentityHate data = Inr y6"
    and r: "rep = jsonify \<lparr> original_text = text,
       toxicity_results =
         [(''Prob (Toxic)'', py_round y1 2),
          (''Prob (Severe Toxic)'', py_round y2 2),
          (''Prob (Obscene)'', py_round y3 2),
          (''Prob (Insult)'', py_round y5 2),
          (''Prob (Threat)'', py_round y4 2),
          (''Prob (Identity Hate)'', py_round y6 2)] \<rparr>"
    unfolding score_pred_column by blast
  define x where "x = (\<lambda>d. case d of Toxic \<Rightarrow> y1 | SevereToxic \<Rightarrow> y2 | Obscene \<Rightarrow> y3
      | Insult \<Rightarrow> y5 | Threat \<Rightarrow> y4 | IdentityHate \<Rightarrow> y6)"
  have "score M d data = Inr (x d)" for d
    by (cases d) (simp_all add: x_def s)
  moreover have "rep = rounded_report text x"
    by (simp add: r rounded_report_def response_dict_def x_def)
  ultimately show ?thesis by blast
qed

lemma get_try_scores_Inr:
  assumes "\<And>d. score M d data = Inr (x d)"
  shows "fst (get_try M text data) = Inr (rounded_report text x)"
proof -
  have "\<exists>p. pred_column M d data = Inr p \<and> item0 p = Inr (x d)" for d
    using assms [of d] by (simp add: score_pred_column on_result_Inr_iff)
  then obtain p where p: "\<And>d. pred_column M d data = Inr (p d)" "\<And>d. item0 (p d) = Inr (x d)"
    by metis
  show ?thesis
    by (simp add: fst_get_try p rounded_report_def response_dict_def)
qed

section \<open>The calls of the \<open>try\<close> block\<close>

lemma calls_and_then:
  assumes "\<forall>c\<in>set (snd m). P c" "\<And>a. fst m = Inr a \<Longrightarrow> \<forall>c\<in>set (snd (f a)). P c"
  shows "\<forall>c\<in>set (snd (and_then m f)). P c"
  using assms by (cases m; cases "fst m") (auto simp: and_then_def split: prod.splits)

lemma calls_no_call: "\<forall>c\<in>set (snd (no_call r)). P c"
  by (simp add: no_call_def)

lemma calls_transform:
  "\<forall>c\<in>set (snd (transform d (vectorizer_of M d) data)). well_paired M data c"
  by (simp add: transform_def well_paired_def split: option.splits)

lemma calls_predict_proba:
  "fst (transform d (vectorizer_of M d) data) = Inr vect \<Longrightarrow>
   \<forall>c\<in>set (snd (predict_proba d (model_of M d) vect)). well_paired M data c"
  by (simp add: transform_def predict_proba_def well_paired_def split: option.splits)

lemma get_try_calls: "\<forall>c\<in>set (snd (get_try M text data)). well_paired M data c"
  unfolding get_try_def globals_of Let_def
  by (intro calls_and_then calls_transform calls_no_call; erule calls_predict_proba)

lemma dimension_step_ok:
  assumes "vectorizer_of M d = Some v" "v data = Inr vect" "model_of M d = Some m"
    "m vect = Inr proba" "column1 proba = Inr pred"
  shows "and_then (transform d (vectorizer_of M d) data) (\<lambda>vect.
        and_then (predict_proba d (model_of M d) vect) (\<lambda>proba.
        and_then (no_call (column1 proba)) K)) =
     (fst (K pred), Transform d data # PredictProba d vect # snd (K pred))"
  using assms
  by (simp add: and_then_def transform_def predict_proba_def no_call_def split: prod.splits)

lemma item_step_ok: "r = Inr y \<Longrightarrow> and_then (no_call r) K = K y"
  by (simp add: and_then_def no_call_def split: prod.splits)

lemma get_try_success:
  fixes M :: "'v models"
  assumes "\<And>d. vectorizer_of M d = Some (v d)" "\<And>d. v d data = Inr (vect d)"
    "\<And>d. model_of M d = Some (m d)" "\<And>d. m d (vect d) = Inr (proba d)"
    "\<And>d. column1 (proba d) = Inr (pred d)" "\<And>d. item0 (pred d) = Inr (x d)"
  shows "get_try M text data =
    (Inr (rounded_report text x),
     [Transform Toxic data, PredictProba Toxic (vect Toxic),
      Transform SevereToxic data, PredictProba SevereToxic (vect SevereToxic),
      Transform Obscene data, PredictProba Obscene (vect Obscene),
      Transform Threat data, PredictProba Threat (vect Threat),
      Transform Insult data, PredictProba Insult (vect Insult),
      Transform IdentityHate data, PredictProba IdentityHate (vect IdentityHate)])"
proof -
  have step: "and_then (transform d (vectorizer_of M d) data) (\<lambda>vect.
        and_then (predict_proba d (model_of M d) vect) (\<lambda>proba.
        and_then (no_call (column1 proba)) K)) =
     (fst (K (pred d)), Transform d data # PredictProba d (vect d) # snd (K (pred d)))"
    for d and K :: "pyfloat list \<Rightarrow> ('v, report) traced"
    by (rule dimension_step_ok) (rule assms)+
  have item: "and_then (no_call (item0 (pred d))) K = K (x d)"
    for d and K :: "pyfloat \<Rightarrow> ('v, report) traced"
    by (rule item_step_ok) (rule assms)
  show ?thesis
    unfolding get_try_def globals_of Let_def step item
    by (simp add: no_call_def rounded_report_def response_dict_def)
qed

lemma column1_item0:
  assumes "column1 proba = Inr pred" "item0 pred = Inr x"
  shows "1 < shape1 proba \<and> 0 < shape0 proba \<and> x = item proba 0 1"
proof -
  from assms(1) have c: "1 < shape1 proba" "pred = map (\<lambda>i. item proba i 1) [0..<shape0 proba]"
    by (auto simp: column1_def split: if_splits)
  from assms(2) obtain rest where "pred = x # rest"
    by (auto simp: item0_def split: list.splits)
  with c(2) have "0 < shape0 proba \<and> x = item proba 0 1"
    by (cases "shape0 proba") (auto simp: upt_conv_Cons simp del: upt_Suc)
  with c(1) show ?thesis by simp
qed

section \<open>The handler on a non-empty text\<close>

lemma get_nonempty:
  assumes "args ''text'' = Some text" "strip text \<noteq> []"
  shows "get M args =
     ((case fst (get_try M (strip text) [strip text]) of
         Inr response \<Rightarrow> (ReportBody response, 200)
       | Inl e \<Rightarrow> (ErrorBody (''Error during prediction: '' @ str_exn e), 500)),
      snd (get_try M (strip text) [strip text]))"
  using assms by (simp add: get_def args_get_def Let_def split: prod.splits sum.splits)

lemma get_calls:
  assumes "args ''text'' = Some text" "strip text \<noteq> []"
  shows "snd (get M args) = snd (get_try M (strip text) [strip text])"
  using assms by (simp add: get_nonempty)

lemma get_success:
  assumes "args ''text'' = Some text" "strip text \<noteq> []"
    and "\<And>d. score M d [strip text] = Inr (x d)"
  shows "fst (get M args) = (ReportBody (rounded_report (strip text) x), 200)"
  using get_try_scores_Inr [of M "[strip text]" x "strip text", OF assms(3)] assms(1,2)
  by (simp add: get_nonempty)

lemma get_report_scores:
  assumes "args ''text'' = Some text" "fst (get M args) = (ReportBody rep, st)"
  shows "strip text \<noteq> [] \<and> st = 200 \<and>
    (\<exists>x. (\<forall>d. score M d [strip text] = Inr (x d)) \<and> rep = rounded_report (strip text) x)"
proof -
  have ne: "strip text \<noteq> []"
    using assms by (auto simp: get_def args_get_def)
  from assms(2) have "fst (get_try M (strip text) [strip text]) = Inr rep \<and> st = 200"
    using assms(1) ne by (auto simp: get_nonempty split: sum.splits)
  with get_try_Inr_scores [of M "strip text" "[strip text]" rep] ne show ?thesis
    by blast
qed

lemma get_failure:
  assumes "args ''text'' = Some text" "strip text \<noteq> []"
    and "score M d [strip text] = Inl e0"
  shows "\<exists>e. fst (get M args) = (ErrorBody (''Error during prediction: '' @ str_exn e), 500)"
proof (cases "fst (get_try M (strip text) [strip text])")
  case (Inl e)
  then show ?thesis
    using assms(1,2) by (auto simp: get_nonempty)
next
  case (Inr rep)
  from get_try_Inr_scores [OF this] assms(3) show ?thesis
    by auto
qed

lemma score_stub: "score stub_models d data = Inr (stub_prob d)"
  by (cases d)
    (simp_all add: score_def vectorizer_of_def model_of_def stub_models_def stub_vect_def
      stub_model_def column1_def item0_def stub_prob_def)

section \<open>The body that is returned\<close>

lemma original_text_rounded_report: "original_text (rounded_report t x) = t"
  by (simp add: rounded_report_def response_dict_def jsonify_def)

lemma rounded_report_sorted:
  "rounded_report text x =
     \<lparr> original_text = text,
       toxicity_results =
         [(''Prob (Identity Hate)'', py_round (x IdentityHate) 2),
          (''Prob (Insult)'', py_round (x Insult) 2),
          (''Prob (Obscene)'', py_round (x Obscene) 2),
          (''Prob (Severe Toxic)'', py_round (x SevereToxic) 2),
          (''Prob (Threat)'', py_round (x Threat) 2),
          (''Prob (Toxic)'', py_round (x Toxic) 2)] \<rparr>"
  by (simp add: rounded_report_def response_dict_def jsonify_def less_eq_char_def less_char_def)

lemma py_round_examples:
  "py_round (float64 (873 / 1000)) 2 = float64 (87 / 100)"
  "py_round (float64 (12 / 1000)) 2 = float64 (1 / 100)"
  "py_round (float64 (501 / 1000)) 2 = float64 (50 / 100)"
  "py_round (float64 (499 / 1000)) 2 = float64 (50 / 100)"
  "py_round (float64 (4 / 1000)) 2 = float64 0"
  "py_round (float64 (200 / 1000)) 2 = float64 (20 / 100)"
  by (simp_all add: py_round_def float64_eval)

lemma py_round_015:
  "float64 (15 / 1000) = 1080863910568919 / 72057594037927936"
  "py_round (float64 (15 / 1000)) 2 = float64 (2 / 100)"
  "float64 (2 / 100) = 5764607523034235 / 288230376151711744"
  "float64 (1 / 100) = 5764607523034235 / 576460752303423488"
  "round_half_even (float64 (15 / 1000) * 100) = 1"
  by (simp_all add: py_round_def float64_eval)

section \<open>Empty input\<close>

text \<open>
  C2. A text that is empty or made of whitespace only is answered with status 400 and the
  body \<open>{"error": "Text is required"}\<close>, and no transform or predict_proba call is made.
\<close>

theorem empty_input_short_circuit:
  "text = [] \<or> (\<forall>c \<in> set text. isspace c) \<Longrightarrow>
   get M (args(''text'' \<mapsto> text)) = ((ErrorBody ''Text is required'', 400), [])"
  by (auto simp: get_def args_get_def strip_all_space)

theorem empty_input_short_circuit_witness:
  "get stub_models [''text'' \<mapsto> [32, 9, 32]] = ((ErrorBody ''Text is required'', 400), [])"
  using empty_input_short_circuit [of "[32, 9, 32]" stub_models Map.empty]
  by (simp add: isspace_def)

text \<open>
  C9. A request without a \<open>text\<close> parameter is answered exactly as one whose \<open>text\<close> is the
  empty string: status 400, "Text is required", no call into any model.
\<close>

theorem missing_text_same_as_empty:
  "args ''text'' = None \<Longrightarrow>
   get M args = get M (args(''text'' \<mapsto> [])) \<and>
   get M args = ((ErrorBody ''Text is required'', 400), [])"
  by (simp add: get_def args_get_def strip_def)

theorem missing_text_same_as_empty_witness:
  "get stub_models Map.empty = get stub_models [''text'' \<mapsto> []] \<and>
   get stub_models Map.empty = ((ErrorBody ''Text is required'', 400), [])"
  by (rule missing_text_same_as_empty) simp

section \<open>Failure of one dimension\<close>

text \<open>
  C1. For a non-empty trimmed text, if the scoring of any one dimension fails (its
  global is \<open>None\<close>, its vectorizer or model raises, or the indexing of its prediction
  raises), the response is the single error body with status 500; it is never a report,
  so no probability of another dimension is returned.
\<close>

theorem all_or_nothing:
  assumes "args ''text'' = Some text" "strip text \<noteq> []"
    and "score M d [strip text] = Inl e0"
  shows "(\<exists>e. fst (get M args) = (ErrorBody (''Error during prediction: '' @ str_exn e), 500)) \<and>
         (\<forall>rep st. fst (get M args) \<noteq> (ReportBody rep, st))"
proof -
  from assms
  have "\<exists>e. fst (get M args) = (ErrorBody (''Error during prediction: '' @ str_exn e), 500)"
    by (rule get_failure)
  then show ?thesis by auto
qed

lemma strip_example: "strip [32, 104, 105, 10] = [104, 105]"
  by (simp add: strip_def isspace_def)

theorem all_or_nothing_witness:
  "score failing_models Threat [strip [32, 104, 105, 10]] = Inl (Exception ''boom'') \<and>
   fst (get failing_models [''text'' \<mapsto> [32, 104, 105, 10]]) =
     (ErrorBody ''Error during prediction: boom'', 500) \<and>
   (\<forall>rep st. fst (get failing_models [''text'' \<mapsto> [32, 104, 105, 10]]) \<noteq> (ReportBody rep, st))"
proof -
  have s: "score failing_models Threat [strip [32, 104, 105, 10]] = Inl (Exception ''boom'')"
    by (simp add: score_def vectorizer_of_def failing_models_def stub_models_def)
  have g: "fst (get failing_models [''text'' \<mapsto> [32, 104, 105, 10]]) =
     (ErrorBody ''Error during prediction: boom'', 500)"
    by (simp add: get_nonempty [of _ "[32, 104, 105, 10]"] strip_example fst_get_try pred_column_def
        vectorizer_of_def model_of_def failing_models_def stub_models_def stub_vect_def
        stub_model_def column1_def)
  from all_or_nothing [of "[''text'' \<mapsto> [32, 104, 105, 10]]" "[32, 104, 105, 10]"
      failing_models Threat "Exception ''boom''"] s g
  show ?thesis by (simp add: strip_example)
qed

section \<open>The text that reaches the report and the models\<close>

lemma score_success_calls:
  fixes M :: "'v models"
  assumes "\<And>d. score M d data = Inr (x d)"
  shows "\<exists>vect. (\<forall>d. \<exists>v. vectorizer_of M d = Some v \<and> v data = Inr (vect d)) \<and>
     snd (get_try M text data) =
       [Transform Toxic data, PredictProba Toxic (vect Toxic),
        Transform SevereToxic data, PredictProba SevereToxic (vect SevereToxic),
        Transform Obscene data, PredictProba Obscene (vect Obscene),
        Transform Threat data, PredictProba Threat (vect Threat),
        Transform Insult data, PredictProba Insult (vect Insult),
        Transform IdentityHate data, PredictProba IdentityHate (vect IdentityHate)]"
proof -
  have "\<exists>v vect m proba pred. vectorizer_of M d = Some v \<and> v data = Inr vect \<and>
     model_of M d = Some m \<and> m vect = Inr proba \<and> column1 proba = Inr pred \<and>
     item0 pred = Inr (x d)" for d
    using assms [of d] by (rule score_InrD)
  then obtain v vect m proba pred where
    h: "\<And>d. vectorizer_of M d = Some (v d)" "\<And>d. v d data = Inr (vect d)"
      "\<And>d. model_of M d = Some (m d)" "\<And>d. m d (vect d) = Inr (proba d)"
      "\<And>d. column1 (proba d) = Inr (pred d)" "\<And>d. item0 (pred d) = Inr (x d)"
    by metis
  from h have "get_try M text data =
    (Inr (rounded_report text x),
     [Transform Toxic data, PredictProba Toxic (vect Toxic),
      Transform SevereToxic data, PredictProba SevereToxic (vect SevereToxic),
      Transform Obscene data, PredictProba Obscene (vect Obscene),
      Transform Threat data, PredictProba Threat (vect Threat),
      Transform Insult data, PredictProba Insult (vect Insult),
      Transform IdentityHate data, PredictProba IdentityHate (vect IdentityHate)])"
    by (rule get_try_success)
  with h(1,2) show ?thesis
    by (intro exI [of _ vect]) simp
qed






section \<open>Rounding\<close>

text \<open>
  The Toxic model returns the float64 number \<open>0.015\<close>. Times one hundred it is strictly
  nearer to 1 than to 2, so to two places it is 0.01 under round-half-to-even and under
  round-half-away-from-zero alike; the report holds 0.02, because the float64 product is
  exactly 1.5 and \<open>rint\<close> takes that to 2.
\<close>

theorem rounding_policy_counterexample:
  "score tie_models Toxic [[104, 105]] = Inr (float64 (15 / 1000)) \<and>
   \<bar>float64 (15 / 1000) * 100 - 1\<bar> < 1 / 2 \<and>
   fst (get tie_models [''text'' \<mapsto> [104, 105]]) =
     (ReportBody \<lparr> original_text = [104, 105],
        toxicity_results =
          [(''Prob (Identity Hate)'', float64 (20 / 100)),
           (''Prob (Insult)'', float64 (50 / 100)),
           (''Prob (Obscene)'', float64 (50 / 100)),
           (''Prob (Severe Toxic)'', float64 (1 / 100)),
           (''Prob (Threat)'', float64 0),
           (''Prob (Toxic)'', float64 (2 / 100))] \<rparr>, 200) \<and>
   float64 (2 / 100) \<noteq> float64 (1 / 100)"
proof -
  define x where "x = stub_prob (Toxic := float64 (15 / 1000))"
  have s: "score tie_models d [[104, 105]] = Inr (x d)" for d
    by (cases d)
      (simp_all add: x_def score_def vectorizer_of_def model_of_def tie_models_def
        stub_models_def stub_vect_def stub_model_def column1_def item0_def stub_prob_def)
  have t: "strip [104, 105] = [104, 105]"
    by (simp add: strip_def isspace_def)
  have "fst (get tie_models [''text'' \<mapsto> [104, 105]]) =
      (ReportBody (rounded_report (strip [104, 105]) x), 200)"
    using get_success [of "[''text'' \<mapsto> [104, 105]]" "[104, 105]" tie_models x]
    by (simp add: t s)
  then have g: "fst (get tie_models [''text'' \<mapsto> [104, 105]]) =
     (ReportBody \<lparr> original_text = [104, 105],
        toxicity_results =
          [(''Prob (Identity Hate)'', float64 (20 / 100)),
           (''Prob (Insult)'', float64 (50 / 100)),
           (''Prob (Obscene)'', float64 (50 / 100)),
           (''Prob (Severe Toxic)'', float64 (1 / 100)),
           (''Prob (Threat)'', float64 0),
           (''Prob (Toxic)'', float64 (2 / 100))] \<rparr>, 200)"
  proof -
    have xv: "x Toxic = float64 (15 / 1000)" "x SevereToxic = float64 (12 / 1000)"
      "x Obscene = float64 (501 / 1000)" "x Insult = float64 (499 / 1000)"
      "x Threat = float64 (4 / 1000)" "x IdentityHate = float64 (200 / 1000)"
      unfolding x_def stub_prob_def by (simp_all only: fun_upd_apply dimension.case) simp_all
    assume "fst (get tie_models [''text'' \<mapsto> [104, 105]]) =
      (ReportBody (rounded_report (strip [104, 105]) x), 200)"
    then show ?thesis
      unfolding t rounded_report_sorted xv py_round_examples py_round_015(2) .
  qed
  have n: "\<bar>float64 (15 / 1000) * 100 - 1\<bar> < 1 / 2" "float64 (2 / 100) \<noteq> float64 (1 / 100)"
    unfolding py_round_015 by simp_all
  from s [of Toxic] g n show ?thesis
    by (simp add: x_def)
qed

text \<open>
  C3, as the code has it. On success every value of the report is \<open>round(x, 2)\<close> of the
  dimension's unrounded float64 probability, the same deterministic rounding for all six:
  the float64 number nearest to \<open>k / 100\<close>, where \<open>k\<close> is the float64 product \<open>x * 100\<close>
  rounded to an integer, a tie going to the even integer. For the float64 values 0.873,
  0.012, 0.501, 0.499, 0.004, 0.200 the report holds 0.87, 0.01, 0.50, 0.50, 0.00, 0.20
  under the respective keys.
\<close>

theorem rounding_policy:
  assumes "args ''text'' = Some text" "strip text \<noteq> []"
    and "\<forall>d. score M d [strip text] = Inr (x d)"
  shows "fst (get M args) =
           (ReportBody \<lparr> original_text = strip text,
              toxicity_results =
                map (\<lambda>d. (label d, py_round (x d) 2))
                  [IdentityHate, Insult, Obscene, SevereToxic, Threat, Toxic] \<rparr>, 200) \<and>
         (\<forall>y. \<exists>k. py_round y 2 = float64 (of_int k / 100) \<and>
            \<bar>of_int k - float64 (y * 100)\<bar> \<le> 1 / 2 \<and>
            (\<bar>of_int k - float64 (y * 100)\<bar> = 1 / 2 \<longrightarrow> even k)) \<and>
         (x Toxic = float64 (873 / 1000) \<and> x SevereToxic = float64 (12 / 1000) \<and>
          x Obscene = float64 (501 / 1000) \<and> x Insult = float64 (499 / 1000) \<and>
          x Threat = float64 (4 / 1000) \<and> x IdentityHate = float64 (200 / 1000) \<longrightarrow>
          fst (get M args) =
            (ReportBody \<lparr> original_text = strip text,
               toxicity_results =
                 [(''Prob (Identity Hate)'', float64 (20 / 100)),
                  (''Prob (Insult)'', float64 (50 / 100)),
                  (''Prob (Obscene)'', float64 (50 / 100)),
                  (''Prob (Severe Toxic)'', float64 (1 / 100)),
                  (''Prob (Threat)'', float64 0),
                  (''Prob (Toxic)'', float64 (87 / 100))] \<rparr>, 200))"
proof -
  from assms(3) have s: "\<And>d. score M d [strip text] = Inr (x d)"
    by simp
  from assms(1,2) s
  have g: "fst (get M args) = (ReportBody (rounded_report (strip text) x), 200)"
    by (rule get_success)
  have 1: "fst (get M args) =
           (ReportBody \<lparr> original_text = strip text,
              toxicity_results =
                map (\<lambda>d. (label d, py_round (x d) 2))
                  [IdentityHate, Insult, Obscene, SevereToxic, Threat, Toxic] \<rparr>, 200)"
    unfolding g rounded_report_sorted by (simp add: label_def)
  have 2: "\<exists>k. py_round y 2 = float64 (of_int k / 100) \<and>
            \<bar>of_int k - float64 (y * 100)\<bar> \<le> 1 / 2 \<and>
            (\<bar>of_int k - float64 (y * 100)\<bar> = 1 / 2 \<longrightarrow> even k)" for y
    using round_half_even_near [of "float64 (y * 100)"]
      round_half_even_tie [of "float64 (y * 100)"]
    by (intro exI [of _ "round_half_even (float64 (y * 100))"]) (simp add: py_round_def)
  have 3: "fst (get M args) =
            (ReportBody \<lparr> original_text = strip text,
               toxicity_results =
                 [(''Prob (Identity Hate)'', float64 (20 / 100)),
                  (''Prob (Insult)'', float64 (50 / 100)),
                  (''Prob (Obscene)'', float64 (50 / 100)),
                  (''Prob (Severe Toxic)'', float64 (1 / 100)),
                  (''Prob (Threat)'', float64 0),
                  (''Prob (Toxic)'', float64 (87 / 100))] \<rparr>, 200)"
    if "x Toxic = float64 (873 / 1000) \<and> x SevereToxic = float64 (12 / 1000) \<and>
          x Obscene = float64 (501 / 1000) \<and> x Insult = float64 (499 / 1000) \<and>
          x Threat = float64 (4 / 1000) \<and> x IdentityHate = float64 (200 / 1000)"
  proof -
    from that have v: "x Toxic = float64 (873 / 1000)" "x SevereToxic = float64 (12 / 1000)"
      "x Obscene = float64 (501 / 1000)" "x Insult = float64 (499 / 1000)"
      "x Threat = float64 (4 / 1000)" "x IdentityHate = float64 (200 / 1000)"
      by blast+
    show ?thesis
      unfolding g rounded_report_sorted v py_round_examples ..
  qed
  from 1 2 3 show ?thesis
    by blast
qed

theorem rounding_policy_witness:
  "fst (get stub_models [''text'' \<mapsto> [32, 104, 105, 10]]) =
     (ReportBody \<lparr> original_text = [104, 105],
        toxicity_results =
          [(''Prob (Identity Hate)'', float64 (20 / 100)),
           (''Prob (Insult)'', float64 (50 / 100)),
           (''Prob (Obscene)'', float64 (50 / 100)),
           (''Prob (Severe Toxic)'', float64 (1 / 100)),
           (''Prob (Threat)'', float64 0),
           (''Prob (Toxic)'', float64 (87 / 100))] \<rparr>, 200)"
proof -
  have a: "[''text'' \<mapsto> [32, 104, 105, 10]] ''text'' = Some [32, 104, 105, 10]"
    "strip [32, 104, 105, 10] \<noteq> []"
    by (simp_all add: strip_example)
  have h: "\<forall>d. score stub_models d [strip [32, 104, 105, 10]] = Inr (stub_prob d)"
    by (simp add: score_stub)
  have v: "stub_prob Toxic = float64 (873 / 1000) \<and> stub_prob SevereToxic = float64 (12 / 1000) \<and>
      stub_prob Obscene = float64 (501 / 1000) \<and> stub_prob Insult = float64 (499 / 1000) \<and>
      stub_prob Threat = float64 (4 / 1000) \<and> stub_prob IdentityHate = float64 (200 / 1000)"
    unfolding stub_prob_def by (simp only: dimension.case simp_thms)
  from rounding_policy [of "[''text'' \<mapsto> [32, 104, 105, 10]]" "[32, 104, 105, 10]"
      stub_models stub_prob, OF a h] v
  show ?thesis
    unfolding strip_example by blast
qed

section \<open>The shape of the report\<close>

text \<open>
  The handler writes the six keys in the display order, but the body that \<open>jsonify\<close>
  returns lists them in sorted order, which is a different order.
\<close>

theorem report_order_counterexample:
  "map fst (toxicity_results (response_dict [104, 105] stub_prob)) =
     [''Prob (Toxic)'', ''Prob (Severe Toxic)'', ''Prob (Obscene)'', ''Prob (Insult)'',
      ''Prob (Threat)'', ''Prob (Identity Hate)''] \<and>
   fst (get stub_models [''text'' \<mapsto> [104, 105]]) =
     (ReportBody (jsonify (response_dict [104, 105] stub_prob)), 200) \<and>
   map fst (toxicity_results (jsonify (response_dict [104, 105] stub_prob))) =
     [''Prob (Identity Hate)'', ''Prob (Insult)'', ''Prob (Obscene)'', ''Prob (Severe Toxic)'',
      ''Prob (Threat)'', ''Prob (Toxic)''] \<and>
   [''Prob (Identity Hate)'', ''Prob (Insult)'', ''Prob (Obscene)'', ''Prob (Severe Toxic)'',
    ''Prob (Threat)'', ''Prob (Toxic)''] \<noteq>
   [''Prob (Toxic)'', ''Prob (Severe Toxic)'', ''Prob (Obscene)'', ''Prob (Insult)'',
    ''Prob (Threat)'', ''Prob (Identity Hate)'']"
proof -
  have t: "strip [104, 105] = [104, 105]"
    by (simp add: strip_def isspace_def)
  have "fst (get stub_models [''text'' \<mapsto> [104, 105]]) =
      (ReportBody (rounded_report (strip [104, 105]) stub_prob), 200)"
    using get_success [of "[''text'' \<mapsto> [104, 105]]" "[104, 105]" stub_models stub_prob]
    by (simp add: t score_stub)
  then have g: "fst (get stub_models [''text'' \<mapsto> [104, 105]]) =
     (ReportBody (jsonify (response_dict [104, 105] stub_prob)), 200)"
    by (simp add: t rounded_report_def)
  have k: "map fst (toxicity_results (jsonify (response_dict [104, 105] stub_prob))) =
     [''Prob (Identity Hate)'', ''Prob (Insult)'', ''Prob (Obscene)'', ''Prob (Severe Toxic)'',
      ''Prob (Threat)'', ''Prob (Toxic)'']"
    using rounded_report_sorted [of "[104, 105]" stub_prob]
    by (simp add: rounded_report_def)
  have d: "map fst (toxicity_results (response_dict [104, 105] stub_prob)) =
     [''Prob (Toxic)'', ''Prob (Severe Toxic)'', ''Prob (Obscene)'', ''Prob (Insult)'',
      ''Prob (Threat)'', ''Prob (Identity Hate)'']"
    by (simp add: response_dict_def)
  from d g k show ?thesis by simp
qed

text \<open>
  C5, as the code has it. For a non-empty trimmed text on which all six dimensions
  succeed, the response has status 200 and its body holds \<open>original_text\<close> and a
  \<open>toxicity_results\<close> mapping with exactly the six keys. The handler builds the mapping
  in the display order Toxic, Severe Toxic, Obscene, Insult, Threat, Identity Hate, and
  the body returned by \<open>jsonify\<close> lists the keys in sorted order: Identity Hate, Insult,
  Obscene, Severe Toxic, Threat, Toxic.
\<close>

theorem report_shape:
  assumes "args ''text'' = Some text" "strip text \<noteq> []"
    and "\<forall>d. \<exists>p. score M d [strip text] = Inr p"
  shows "\<exists>dict rep. fst (get M args) = (ReportBody rep, 200) \<and> rep = jsonify dict \<and>
           original_text rep = strip text \<and>
           map fst (toxicity_results dict) =
             [''Prob (Toxic)'', ''Prob (Severe Toxic)'', ''Prob (Obscene)'', ''Prob (Insult)'',
              ''Prob (Threat)'', ''Prob (Identity Hate)''] \<and>
           map fst (toxicity_results rep) =
             [''Prob (Identity Hate)'', ''Prob (Insult)'', ''Prob (Obscene)'',
              ''Prob (Severe Toxic)'', ''Prob (Threat)'', ''Prob (Toxic)'']"
proof -
  from assms(3) obtain x where "\<And>d. score M d [strip text] = Inr (x d)"
    by metis
  with assms(1,2)
  have g: "fst (get M args) = (ReportBody (rounded_report (strip text) x), 200)"
    by (rule get_success)
  have "map fst (toxicity_results (rounded_report (strip text) x)) =
             [''Prob (Identity Hate)'', ''Prob (Insult)'', ''Prob (Obscene)'',
              ''Prob (Severe Toxic)'', ''Prob (Threat)'', ''Prob (Toxic)'']"
    unfolding rounded_report_sorted by simp
  moreover have "map fst (toxicity_results (response_dict (strip text) x)) =
             [''Prob (Toxic)'', ''Prob (Severe Toxic)'', ''Prob (Obscene)'', ''Prob (Insult)'',
              ''Prob (Threat)'', ''Prob (Identity Hate)'']"
    by (simp add: response_dict_def)
  ultimately show ?thesis
    using g original_text_rounded_report [of "strip text" x]
    by (intro exI [of _ "response_dict (strip text) x"]
        exI [of _ "rounded_report (strip text) x"]) (simp add: rounded_report_def)
qed

theorem report_shape_witness:
  "\<exists>dict rep. fst (get stub_models [''text'' \<mapsto> [32, 104, 105, 10]]) = (ReportBody rep, 200) \<and>
     rep = jsonify dict \<and> original_text rep = [104, 105] \<and>
     map fst (toxicity_results dict) =
       [''Prob (Toxic)'', ''Prob (Severe Toxic)'', ''Prob (Obscene)'', ''Prob (Insult)'',
        ''Prob (Threat)'', ''Prob (Identity Hate)''] \<and>
     map fst (toxicity_results rep) =
       [''Prob (Identity Hate)'', ''Prob (Insult)'', ''Prob (Obscene)'',
        ''Prob (Severe Toxic)'', ''Prob (Threat)'', ''Prob (Toxic)'']"
proof -
  have a: "[''text'' \<mapsto> [32, 104, 105, 10]] ''text'' = Some [32, 104, 105, 10]"
    "strip [32, 104, 105, 10] \<noteq> []"
    by (simp_all add: strip_example)
  have h: "\<forall>d. \<exists>p. score stub_models d [strip [32, 104, 105, 10]] = Inr p"
    by (simp add: score_stub)
  from report_shape [of "[''text'' \<mapsto> [32, 104, 105, 10]]" "[32, 104, 105, 10]" stub_models,
      OF a h]
  show ?thesis
    unfolding strip_example .
qed




lemma map_of_rounded_report:
  "map_of (toxicity_results (rounded_report t x)) (label d) = Some (py_round (x d) 2)"
  unfolding rounded_report_sorted by (cases d) (simp_all add: label_def)




lemma column1_item0_ok:
  assumes "1 < shape1 a" "0 < shape0 a"
  shows "column1 a = Inr (map (\<lambda>i. item a i 1) [0..<shape0 a])"
    and "item0 (map (\<lambda>i. item a i 1) [0..<shape0 a]) = Inr (item a 0 1)"
  using assms by (simp_all add: column1_def item0_def upt_conv_Cons)

lemma get_success_calls:
  fixes M :: "'v models"
  assumes "args ''text'' = Some text" "strip text \<noteq> []"
    and "\<And>d. vectorizer_of M d = Some (v d)" "\<And>d. v d [strip text] = Inr (vect d)"
    and "\<And>d. model_of M d = Some (m d)" "\<And>d. m d (vect d) = Inr (proba d)"
    and "\<And>d. 1 < shape1 (proba d)" "\<And>d. 0 < shape0 (proba d)"
  shows "get M args =
    ((ReportBody (rounded_report (strip text) (\<lambda>d. item (proba d) 0 1)), 200),
     [Transform Toxic [strip text], PredictProba Toxic (vect Toxic),
      Transform SevereToxic [strip text], PredictProba SevereToxic (vect SevereToxic),
      Transform Obscene [strip text], PredictProba Obscene (vect Obscene),
      Transform Threat [strip text], PredictProba Threat (vect Threat),
      Transform Insult [strip text], PredictProba Insult (vect Insult),
      Transform IdentityHate [strip text], PredictProba IdentityHate (vect IdentityHate)])"
proof -
  have c: "column1 (proba d) = Inr (map (\<lambda>i. item (proba d) i 1) [0..<shape0 (proba d)])"
    for d by (rule column1_item0_ok) (rule assms)+
  have i: "item0 (map (\<lambda>i. item (proba d) i 1) [0..<shape0 (proba d)]) =
      Inr (item (proba d) 0 1)"
    for d by (rule column1_item0_ok) (rule assms)+
  have "get_try M (strip text) [strip text] =
    (Inr (rounded_report (strip text) (\<lambda>d. item (proba d) 0 1)),
     [Transform Toxic [strip text], PredictProba Toxic (vect Toxic),
      Transform SevereToxic [strip text], PredictProba SevereToxic (vect SevereToxic),
      Transform Obscene [strip text], PredictProba Obscene (vect Obscene),
      Transform Threat [strip text], PredictProba Threat (vect Threat),
      Transform Insult [strip text], PredictProba Insult (vect Insult),
      Transform IdentityHate [strip text], PredictProba IdentityHate (vect IdentityHate)])"
    by (rule get_try_success [where v = v and m = m and proba = proba
          and pred = "\<lambda>d. map (\<lambda>i. item (proba d) i 1) [0..<shape0 (proba d)]"])
      (rule assms c i)+
  then show ?thesis
    using assms(1,2) by (simp add: get_nonempty)
qed

text \<open>
  C10. Although the one local \<open>vect\<close> is reused, every predict_proba call the handler
  makes is on the feature matrix that the vectorizer of the same dimension returned for
  the trimmed text. Whenever a report is returned, each dimension's model was called on
  its own vectorizer's output, and the value under the dimension's key is the rounded
  entry in row 0, column 1 (the positive class) of that model's prediction. And whenever
  every vectorizer and every model returns, each prediction having a row and at least two
  columns, the handler does return such a report, after exactly the twelve calls in the
  order of the source.
\<close>

theorem extractor_classifier_pairing:
  assumes "args ''text'' = Some text" "strip text \<noteq> []"
  shows "(\<forall>c \<in> set (snd (get M args)). well_paired M [strip text] c) \<and>
         (\<forall>rep st. fst (get M args) = (ReportBody rep, st) \<longrightarrow>
            (\<forall>d. \<exists>v vect m proba.
               vectorizer_of M d = Some v \<and> v [strip text] = Inr vect \<and>
               model_of M d = Some m \<and> m vect = Inr proba \<and>
               PredictProba d vect \<in> set (snd (get M args)) \<and>
               1 < shape1 proba \<and> 0 < shape0 proba \<and>
               map_of (toxicity_results rep) (label d) = Some (py_round (item proba 0 1) 2))) \<and>
         (\<forall>v vect m proba.
            (\<forall>d. vectorizer_of M d = Some (v d) \<and> v d [strip text] = Inr (vect d) \<and>
                 model_of M d = Some (m d) \<and> m d (vect d) = Inr (proba d) \<and>
                 1 < shape1 (proba d) \<and> 0 < shape0 (proba d)) \<longrightarrow>
            (\<exists>rep. get M args =
               ((ReportBody rep, 200),
                [Transform Toxic [strip text], PredictProba Toxic (vect Toxic),
                 Transform SevereToxic [strip text], PredictProba SevereToxic (vect SevereToxic),
                 Transform Obscene [strip text], PredictProba Obscene (vect Obscene),
                 Transform Threat [strip text], PredictProba Threat (vect Threat),
                 Transform Insult [strip text], PredictProba Insult (vect Insult),
                 Transform IdentityHate [strip text],
                 PredictProba IdentityHate (vect IdentityHate)]) \<and>
               (\<forall>d. map_of (toxicity_results rep) (label d) =
                  Some (py_round (item (proba d) 0 1) 2))))"
proof -
  have calls: "snd (get M args) = snd (get_try M (strip text) [strip text])"
    using assms by (rule get_calls)
  have 1: "\<forall>c \<in> set (snd (get M args)). well_paired M [strip text] c"
    unfolding calls by (rule get_try_calls)
  have 2: "\<exists>v vect m proba.
       vectorizer_of M d = Some v \<and> v [strip text] = Inr vect \<and>
       model_of M d = Some m \<and> m vect = Inr proba \<and>
       PredictProba d vect \<in> set (snd (get M args)) \<and>
       1 < shape1 proba \<and> 0 < shape0 proba \<and>
       map_of (toxicity_results rep) (label d) = Some (py_round (item proba 0 1) 2)"
    if g: "fst (get M args) = (ReportBody rep, st)" for rep st d
  proof -
    from get_report_scores [of args "text" M rep st] assms(1) g obtain x where
      x: "\<And>d. score M d [strip text] = Inr (x d)" and
      rep: "rep = rounded_report (strip text) x"
      by blast
    from score_success_calls [of M "[strip text]" x "strip text", OF x] obtain f where
      f: "\<And>d. \<exists>v. vectorizer_of M d = Some v \<and> v [strip text] = Inr (f d)" and
      tr: "snd (get_try M (strip text) [strip text]) =
       [Transform Toxic [strip text], PredictProba Toxic (f Toxic),
        Transform SevereToxic [strip text], PredictProba SevereToxic (f SevereToxic),
        Transform Obscene [strip text], PredictProba Obscene (f Obscene),
        Transform Threat [strip text], PredictProba Threat (f Threat),
        Transform Insult [strip text], PredictProba Insult (f Insult),
        Transform IdentityHate [strip text], PredictProba IdentityHate (f IdentityHate)]"
      by blast
    have inc: "PredictProba d (f d) \<in> set (snd (get M args))"
      unfolding calls tr by (cases d) simp_all
    from score_InrD [OF x [of d]] obtain v vect m proba pred where
      h: "vectorizer_of M d = Some v" "v [strip text] = Inr vect" "model_of M d = Some m"
        "m vect = Inr proba" "column1 proba = Inr pred" "item0 pred = Inr (x d)"
      by blast
    from f [of d] h(1,2) have fd: "f d = vect"
      by auto
    from column1_item0 [OF h(5,6)] have
      c: "1 < shape1 proba" "0 < shape0 proba" "x d = item proba 0 1"
      by simp_all
    have "map_of (toxicity_results rep) (label d) = Some (py_round (item proba 0 1) 2)"
      unfolding rep map_of_rounded_report c(3) ..
    with h(1-4) inc c(1,2) show ?thesis
      unfolding fd by blast
  qed
  have 3: "\<exists>rep. get M args =
               ((ReportBody rep, 200),
                [Transform Toxic [strip text], PredictProba Toxic (vect Toxic),
                 Transform SevereToxic [strip text], PredictProba SevereToxic (vect SevereToxic),
                 Transform Obscene [strip text], PredictProba Obscene (vect Obscene),
                 Transform Threat [strip text], PredictProba Threat (vect Threat),
                 Transform Insult [strip text], PredictProba Insult (vect Insult),
                 Transform IdentityHate [strip text],
                 PredictProba IdentityHate (vect IdentityHate)]) \<and>
               (\<forall>d. map_of (toxicity_results rep) (label d) =
                  Some (py_round (item (proba d) 0 1) 2))"
    if h: "\<forall>d. vectorizer_of M d = Some (v d) \<and> v d [strip text] = Inr (vect d) \<and>
                 model_of M d = Some (m d) \<and> m d (vect d) = Inr (proba d) \<and>
                 1 < shape1 (proba d) \<and> 0 < shape0 (proba d)"
    for v vect m proba
  proof -
    from h have "get M args =
      ((ReportBody (rounded_report (strip text) (\<lambda>d. item (proba d) 0 1)), 200),
       [Transform Toxic [strip text], PredictProba Toxic (vect Toxic),
        Transform SevereToxic [strip text], PredictProba SevereToxic (vect SevereToxic),
        Transform Obscene [strip text], PredictProba Obscene (vect Obscene),
        Transform Threat [strip text], PredictProba Threat (vect Threat),
        Transform Insult [strip text], PredictProba Insult (vect Insult),
        Transform IdentityHate [strip text], PredictProba IdentityHate (vect IdentityHate)])"
      by (intro get_success_calls [where v = v and m = m] assms) simp_all
    then show ?thesis
      by (intro exI [of _ "rounded_report (strip text) (\<lambda>d. item (proba d) 0 1)"])
        (simp add: map_of_rounded_report)
  qed
  from 1 2 3 show ?thesis
    by blast
qed

theorem extractor_classifier_pairing_witness:
  "\<exists>rep. get echo_models [''text'' \<mapsto> [32, 104, 105, 10]] =
     ((ReportBody rep, 200),
      [Transform Toxic [[104, 105]], PredictProba Toxic 102,
       Transform SevereToxic [[104, 105]], PredictProba SevereToxic 202,
       Transform Obscene [[104, 105]], PredictProba Obscene 302,
       Transform Threat [[104, 105]], PredictProba Threat 502,
       Transform Insult [[104, 105]], PredictProba Insult 402,
       Transform IdentityHate [[104, 105]], PredictProba IdentityHate 602]) \<and>
     map_of (toxicity_results rep) ''Prob (Toxic)'' = Some (float64 (10 / 100)) \<and>
     map_of (toxicity_results rep) ''Prob (Severe Toxic)'' = Some (float64 (20 / 100)) \<and>
     map_of (toxicity_results rep) ''Prob (Obscene)'' = Some (float64 (30 / 100)) \<and>
     map_of (toxicity_results rep) ''Prob (Insult)'' = Some (float64 (40 / 100)) \<and>
     map_of (toxicity_results rep) ''Prob (Threat)'' = Some (float64 (50 / 100)) \<and>
     map_of (toxicity_results rep) ''Prob (Identity Hate)'' = Some (float64 (59 / 100))"
proof -
  define k where "k = (\<lambda>d. case d of Toxic \<Rightarrow> 1 | SevereToxic \<Rightarrow> 2 | Obscene \<Rightarrow> 3
    | Insult \<Rightarrow> 4 | Threat \<Rightarrow> 5 | IdentityHate \<Rightarrow> (6::nat))"
  define v where "v = (\<lambda>d. stub_vect (100 * k d))"
  define vect where "vect = (\<lambda>d. 100 * k d + 2)"
  define m where "m = (\<lambda>d. echo_model (k d))"
  define proba where "proba = (\<lambda>d. NDArray 1 2 (\<lambda>i j. if j = 1 then of_nat (vect d + k d) / 1024
                               else 1 - of_nat (vect d + k d) / 1024))"
  have a: "[''text'' \<mapsto> [32, 104, 105, 10]] ''text'' = Some [32, 104, 105, 10]"
    "strip [32, 104, 105, 10] \<noteq> []"
    by (simp_all add: strip_example)
  have h: "\<forall>d. vectorizer_of echo_models d = Some (v d) \<and>
      v d [strip [32, 104, 105, 10]] = Inr (vect d) \<and>
      model_of echo_models d = Some (m d) \<and> m d (vect d) = Inr (proba d) \<and>
      1 < shape1 (proba d) \<and> 0 < shape0 (proba d)"
  proof
    fix d
    show "vectorizer_of echo_models d = Some (v d) \<and>
      v d [strip [32, 104, 105, 10]] = Inr (vect d) \<and>
      model_of echo_models d = Some (m d) \<and> m d (vect d) = Inr (proba d) \<and>
      1 < shape1 (proba d) \<and> 0 < shape0 (proba d)"
      by (cases d)
        (simp_all add: vectorizer_of_def model_of_def echo_models_def echo_model_def
          stub_vect_def strip_example v_def vect_def m_def proba_def k_def cong: if_cong)
  qed
  from extractor_classifier_pairing [of "[''text'' \<mapsto> [32, 104, 105, 10]]"
      "[32, 104, 105, 10]" echo_models, OF a, THEN conjunct2, THEN conjunct2, rule_format,
      of v vect m proba, OF h [rule_format]]
  obtain rep where r: "get echo_models [''text'' \<mapsto> [32, 104, 105, 10]] =
     ((ReportBody rep, 200),
      [Transform Toxic [strip [32, 104, 105, 10]], PredictProba Toxic (vect Toxic),
       Transform SevereToxic [strip [32, 104, 105, 10]], PredictProba SevereToxic (vect SevereToxic),
       Transform Obscene [strip [32, 104, 105, 10]], PredictProba Obscene (vect Obscene),
       Transform Threat [strip [32, 104, 105, 10]], PredictProba Threat (vect Threat),
       Transform Insult [strip [32, 104, 105, 10]], PredictProba Insult (vect Insult),
       Transform IdentityHate [strip [32, 104, 105, 10]],
       PredictProba IdentityHate (vect IdentityHate)]) \<and>
     (\<forall>d. map_of (toxicity_results rep) (label d) = Some (py_round (item (proba d) 0 1) 2))"
    ..
  have p: "py_round (item (proba Toxic) 0 1) 2 = float64 (10 / 100)"
    "py_round (item (proba SevereToxic) 0 1) 2 = float64 (20 / 100)"
    "py_round (item (proba Obscene) 0 1) 2 = float64 (30 / 100)"
    "py_round (item (proba Insult) 0 1) 2 = float64 (40 / 100)"
    "py_round (item (proba Threat) 0 1) 2 = float64 (50 / 100)"
    "py_round (item (proba IdentityHate) 0 1) 2 = float64 (59 / 100)"
    by (simp_all add: proba_def vect_def k_def py_round_def float64_eval)
  have l: "label Toxic = ''Prob (Toxic)''" "label SevereToxic = ''Prob (Severe Toxic)''"
    "label Obscene = ''Prob (Obscene)''" "label Insult = ''Prob (Insult)''"
    "label Threat = ''Prob (Threat)''" "label IdentityHate = ''Prob (Identity Hate)''"
    by (simp_all add: label_def)
  have w: "vect Toxic = 102" "vect SevereToxic = 202" "vect Obscene = 302"
    "vect Insult = 402" "vect Threat = 502" "vect IdentityHate = 602"
    by (simp_all add: vect_def k_def)
  from r [THEN conjunct1] r [THEN conjunct2, rule_format, of Toxic]
    r [THEN conjunct2, rule_format, of SevereToxic] r [THEN conjunct2, rule_format, of Obscene]
    r [THEN conjunct2, rule_format, of Insult] r [THEN conjunct2, rule_format, of Threat]
    r [THEN conjunct2, rule_format, of IdentityHate]
  show ?thesis
    unfolding p l w strip_example by (intro exI [of _ rep] conjI) assumption+
qed

section \<open>Repeated requests\<close>

text \<open>
  On objects that pass the state through, the handler with stateful objects is the handler
  \<open>get\<close> and leaves the state as it found it.
\<close>

lemma transform_st_stateless:
  "transform_st d (map_option stateless obj) data = (\<lambda>s. (transform d obj data, s))"
  by (cases obj) (simp_all add: transform_st_def transform_def stateless_def fun_eq_iff)

lemma predict_proba_st_stateless:
  "predict_proba_st d (map_option stateless obj) vect = (\<lambda>s. (predict_proba d obj vect, s))"
  by (cases obj) (simp_all add: predict_proba_st_def predict_proba_def stateless_def fun_eq_iff)

lemma no_call_st_stateless: "no_call_st r = (\<lambda>s. (no_call r, s))"
  by (simp add: no_call_st_def no_call_def fun_eq_iff)

lemma and_then_st_stateless:
  "and_then_st (\<lambda>s. (m, s)) (\<lambda>a s. (f a, s)) = (\<lambda>s. (and_then m f, s))"
  by (cases m; cases "fst m")
    (auto simp: and_then_st_def and_then_def fun_eq_iff split: prod.splits)

lemma stateless_models_fields:
  "tox (stateless_models M) = map_option stateless (tox M)"
  "sev (stateless_models M) = map_option stateless (sev M)"
  "obs (stateless_models M) = map_option stateless (obs M)"
  "ins (stateless_models M) = map_option stateless (ins M)"
  "thr (stateless_models M) = map_option stateless (thr M)"
  "ide (stateless_models M) = map_option stateless (ide M)"
  "tox_model (stateless_models M) = map_option stateless (tox_model M)"
  "sev_model (stateless_models M) = map_option stateless (sev_model M)"
  "obs_model (stateless_models M) = map_option stateless (obs_model M)"
  "ins_model (stateless_models M) = map_option stateless (ins_model M)"
  "thr_model (stateless_models M) = map_option stateless (thr_model M)"
  "ide_model (stateless_models M) = map_option stateless (ide_model M)"
  by (simp_all add: stateless_models_def)

lemma get_try_st_stateless:
  "get_try_st (stateless_models M) text data = (\<lambda>s. (get_try M text data, s))"
  unfolding get_try_st_def get_try_def Let_def stateless_models_fields
    transform_st_stateless predict_proba_st_stateless no_call_st_stateless
    and_then_st_stateless ..

lemma get_st_stateless: "get_st (stateless_models M) args s = (get M args, s)"
  by (simp add: get_st_def get_def get_try_st_stateless Let_def split: prod.splits sum.splits)

lemma pure_method_stateless:
  assumes "pure_method f"
  shows "stateless (\<lambda>x. fst (f x s0)) = f"
proof (intro ext)
  fix x s
  from assms have "snd (f x s) = s" "fst (f x s) = fst (f x s0)"
    unfolding pure_method_def by blast+
  then show "stateless (\<lambda>x. fst (f x s0)) x s = f x s"
    by (simp add: stateless_def prod_eq_iff)
qed

lemma pure_option_stateless:
  assumes "case obj of None \<Rightarrow> True | Some f \<Rightarrow> pure_method f"
  shows "map_option stateless (map_option (\<lambda>f x. fst (f x s0)) obj) = obj"
  using assms by (cases obj) (simp_all add: pure_method_stateless)

lemma stateless_snapshot:
  assumes "pure_models M"
  shows "stateless_models (snapshot s0 M) = M"
proof -
  from assms have v: "case vectorizer_of M d of None \<Rightarrow> True | Some f \<Rightarrow> pure_method f"
    and m: "case model_of M d of None \<Rightarrow> True | Some f \<Rightarrow> pure_method f" for d
    unfolding pure_models_def by blast+
  note p = v [of Toxic] v [of SevereToxic] v [of Obscene] v [of Insult] v [of Threat]
    v [of IdentityHate] m [of Toxic] m [of SevereToxic] m [of Obscene] m [of Insult]
    m [of Threat] m [of IdentityHate]
  show ?thesis
    using p [unfolded vectorizer_of_def model_of_def dimension.case]
    by (simp add: stateless_models_def snapshot_def pure_option_stateless)
qed

lemma pure_models_stateless: "pure_models (stateless_models M)"
proof -
  have p: "case map_option stateless obj of None \<Rightarrow> True | Some f \<Rightarrow> pure_method f" for obj
    by (cases obj) (simp_all add: pure_method_def stateless_def)
  show ?thesis
    unfolding pure_models_def
  proof (intro allI)
    fix d
    show "(case vectorizer_of (stateless_models M) d of None \<Rightarrow> True
            | Some f \<Rightarrow> pure_method f) \<and>
          (case model_of (stateless_models M) d of None \<Rightarrow> True | Some f \<Rightarrow> pure_method f)"
      by (cases d)
        (auto simp: vectorizer_of_def model_of_def stateless_models_fields pure_method_def
          stateless_def split: option.splits)
  qed
qed

text \<open>
  C6. Two successive requests against the same loaded objects, the second served in the
  state the first one left: if every loaded vectorizer and model is a pure function (it
  neither changes the state nor depends on it) and both requests carry the same \<open>text\<close>
  parameter, the second response is the first one, body, status and rounded values alike,
  and the first request left the state of the objects unchanged.
\<close>

theorem repeated_call_same_report:
  assumes "pure_models M" "args2 ''text'' = args1 ''text''"
  shows "fst (get_st M args2 (snd (get_st M args1 s))) = fst (get_st M args1 s) \<and>
         snd (get_st M args1 s) = s"
proof -
  from assms(1) have M: "M = stateless_models (snapshot s M)"
    by (simp add: stateless_snapshot)
  have "get (snapshot s M) args2 = get (snapshot s M) args1"
    using assms(2) by (simp add: get_def args_get_def)
  then show ?thesis
    by (subst (1 2 3 4) M) (simp add: get_st_stateless)
qed

theorem repeated_call_same_report_witness:
  "pure_models (stateless_models stub_models :: (nat, nat) stateful_models) \<and>
   fst (get_st (stateless_models stub_models)
          [''text'' \<mapsto> [104, 105], ''lang'' \<mapsto> [101, 110]]
          (snd (get_st (stateless_models stub_models) [''text'' \<mapsto> [104, 105]] (0::nat)))) =
   fst (get_st (stateless_models stub_models) [''text'' \<mapsto> [104, 105]] (0::nat)) \<and>
   snd (get_st (stateless_models stub_models) [''text'' \<mapsto> [104, 105]] (0::nat)) = 0"
proof -
  have p: "pure_models (stateless_models stub_models :: (nat, nat) stateful_models)"
    by (rule pure_models_stateless)
  have a: "[''text'' \<mapsto> [104, 105], ''lang'' \<mapsto> [101, 110]] ''text'' =
      [''text'' \<mapsto> [104, 105]] ''text''"
    by simp
  from repeated_call_same_report [of "stateless_models stub_models"
      "[''text'' \<mapsto> [104, 105], ''lang'' \<mapsto> [101, 110]]" "[''text'' \<mapsto> [104, 105]]" 0,
      OF p a] p
  show ?thesis
    by blast
qed

text \<open>
  The hypothesis on the objects is needed: with a Toxic classifier that counts its calls,
  the same request made twice in a row gets two different reports.
\<close>

lemma counting_run:
  "get_st counting_models [''text'' \<mapsto> [104, 105]] s =
     (((ReportBody (rounded_report [104, 105]
          (stub_prob (Toxic := if s = 0 then 1 / 4 else 3 / 4))), 200),
       [Transform Toxic [[104, 105]], PredictProba Toxic 102,
        Transform SevereToxic [[104, 105]], PredictProba SevereToxic 202,
        Transform Obscene [[104, 105]], PredictProba Obscene 302,
        Transform Threat [[104, 105]], PredictProba Threat 502,
        Transform Insult [[104, 105]], PredictProba Insult 402,
        Transform IdentityHate [[104, 105]], PredictProba IdentityHate 602]),
      Suc s)"
proof -
  have t: "strip [104, 105] = [104, 105]"
    by (simp add: strip_def isspace_def)
  have "get_try_st counting_models [104, 105] [[104, 105]] s =
     ((Inr (rounded_report [104, 105]
          (stub_prob (Toxic := if s = 0 then 1 / 4 else 3 / 4))),
       [Transform Toxic [[104, 105]], PredictProba Toxic 102,
        Transform SevereToxic [[104, 105]], PredictProba SevereToxic 202,
        Transform Obscene [[104, 105]], PredictProba Obscene 302,
        Transform Threat [[104, 105]], PredictProba Threat 502,
        Transform Insult [[104, 105]], PredictProba Insult 402,
        Transform IdentityHate [[104, 105]], PredictProba IdentityHate 602]),
      Suc s)"
    unfolding get_try_st_def
    by (simp add: counting_models_def stateless_models_def stub_models_def
        transform_st_def predict_proba_st_def no_call_st_def and_then_st_def
        stateless_def stub_vect_def stub_model_def counting_model_def column1_def item0_def
        rounded_report_def response_dict_def stub_prob_def)
  then show ?thesis
    by (simp add: get_st_def args_get_def t Let_def)
qed

lemma counting_models_differ:
  "fst (get_st counting_models [''text'' \<mapsto> [104, 105]]
          (snd (get_st counting_models [''text'' \<mapsto> [104, 105]] 0))) \<noteq>
   fst (get_st counting_models [''text'' \<mapsto> [104, 105]] 0)"
proof -
  have "py_round (1 / 4) 2 \<noteq> py_round (3 / 4) 2"
    by (simp add: py_round_def float64_eval)
  then show ?thesis
    unfolding counting_run by (simp add: rounded_report_sorted)
qed

section \<open>Models that failed to load\<close>

lemma vectorizer_of_load_models:
  "vectorizer_of (load_models uv um) d =
     (case uv (vect_path d) of Inl e \<Rightarrow> None | Inr v \<Rightarrow> Some v)"
  by (cases d)
    (simp_all add: vectorizer_of_def load_models_def load_pickle_file_def split: sum.splits)

lemma model_of_load_models:
  "model_of (load_models uv um) d =
     (case um (model_path d) of Inl e \<Rightarrow> None | Inr m \<Rightarrow> Some m)"
  by (cases d)
    (simp_all add: model_of_def load_models_def load_pickle_file_def split: sum.splits)

lemma and_then_Inl: "and_then (Inl e, cs) f = (Inl e, cs)"
  by (simp add: and_then_def)

lemma and_then_Inr: "and_then (Inr a, cs) f = (fst (f a), cs @ snd (f a))"
  by (simp add: and_then_def split: prod.splits)

text \<open>
  A model directory without \<open>toxic_model.pkl\<close>: the Toxic vectorizer loads, the Toxic
  model is \<open>None\<close>. On a request the handler still calls the Toxic vectorizer, then
  fails on \<open>tox_model.predict_proba\<close> with an AttributeError, which it reports as the
  generic status-500 error. So a scorer does run with one of its pair missing, and there is
  no separate error kind for a component that is unavailable.
\<close>

theorem unavailable_scorer_counterexample:
  "tox (load_models stub_unpickle_vect stub_unpickle_model) = Some (stub_vect 7) \<and>
   tox_model (load_models stub_unpickle_vect stub_unpickle_model) = None \<and>
   get (load_models stub_unpickle_vect stub_unpickle_model) [''text'' \<mapsto> [104, 105]] =
     ((ErrorBody (''Error during prediction: '' @ str_exn (AttributeError ''predict_proba'')),
       500),
      [Transform Toxic [[104, 105]]])"
proof -
  have s: "strip [104, 105] = [104, 105]"
    by (simp add: strip_def isspace_def)
  have M: "tox (load_models stub_unpickle_vect stub_unpickle_model) = Some (stub_vect 7)"
    "tox_model (load_models stub_unpickle_vect stub_unpickle_model) = None"
    by (simp_all add: load_models_def load_pickle_file_def stub_unpickle_vect_def
        stub_unpickle_model_def vect_path_def model_path_def model_dir_def)
  have "get_try (load_models stub_unpickle_vect stub_unpickle_model) [104, 105] [[104, 105]] =
      (Inl (AttributeError ''predict_proba''), [Transform Toxic [[104, 105]]])"
    unfolding get_try_def M
    by (simp add: transform_def predict_proba_def stub_vect_def and_then_Inl and_then_Inr)
  then have "get (load_models stub_unpickle_vect stub_unpickle_model)
      [''text'' \<mapsto> [104, 105]] =
     ((ErrorBody (''Error during prediction: '' @ str_exn (AttributeError ''predict_proba'')),
       500),
      [Transform Toxic [[104, 105]]])"
    by (simp add: get_nonempty [of _ "[104, 105]"] s)
  with M show ?thesis by blast
qed

text \<open>
  The \<open>try\<close> block returns a report only if every vectorizer and every model was loaded,
  and every call it makes is on a loaded object.
\<close>

lemma returns_only_if_rest:
  assumes "\<And>a. returns_only_if Q (f a)"
  shows "returns_only_if Q (and_then_st m f)"
  unfolding returns_only_if_def
proof (intro allI impI)
  fix s b
  assume r: "fst (fst (and_then_st m f s)) = Inr b"
  obtain r0 cs s' where m: "m s = ((r0, cs), s')"
    by (metis prod.exhaust)
  show Q
  proof (cases r0)
    case (Inl e)
    with r m show ?thesis by (simp add: and_then_st_def)
  next
    case (Inr a)
    with r m have "fst (fst (f a s')) = Inr b"
      by (simp add: and_then_st_def split: prod.splits)
    with assms [of a] show ?thesis
      unfolding returns_only_if_def by blast
  qed
qed

lemma returns_only_if_transform:
  "returns_only_if (obj \<noteq> None) (and_then_st (transform_st d obj data) f)"
  unfolding returns_only_if_def
  by (cases obj) (auto simp: and_then_st_def transform_st_def split: prod.splits)

lemma returns_only_if_predict_proba:
  "returns_only_if (obj \<noteq> None) (and_then_st (predict_proba_st d obj vect) f)"
  unfolding returns_only_if_def
  by (cases obj) (auto simp: and_then_st_def predict_proba_st_def split: prod.splits)

lemma get_try_st_needs:
  "returns_only_if (vectorizer_of M Toxic \<noteq> None) (get_try_st M text data)"
  "returns_only_if (vectorizer_of M SevereToxic \<noteq> None) (get_try_st M text data)"
  "returns_only_if (vectorizer_of M Obscene \<noteq> None) (get_try_st M text data)"
  "returns_only_if (vectorizer_of M Insult \<noteq> None) (get_try_st M text data)"
  "returns_only_if (vectorizer_of M Threat \<noteq> None) (get_try_st M text data)"
  "returns_only_if (vectorizer_of M IdentityHate \<noteq> None) (get_try_st M text data)"
  "returns_only_if (model_of M Toxic \<noteq> None) (get_try_st M text data)"
  "returns_only_if (model_of M SevereToxic \<noteq> None) (get_try_st M text data)"
  "returns_only_if (model_of M Obscene \<noteq> None) (get_try_st M text data)"
  "returns_only_if (model_of M Insult \<noteq> None) (get_try_st M text data)"
  "returns_only_if (model_of M Threat \<noteq> None) (get_try_st M text data)"
  "returns_only_if (model_of M IdentityHate \<noteq> None) (get_try_st M text data)"
  unfolding get_try_st_def globals_of
  by (intro returns_only_if_transform returns_only_if_predict_proba returns_only_if_rest)+

lemma get_try_st_Inr_loaded:
  assumes "fst (fst (get_try_st M text data s)) = Inr b"
  shows "vectorizer_of M d \<noteq> None \<and> model_of M d \<noteq> None"
proof -
  note n = get_try_st_needs [of M "text" data, unfolded returns_only_if_def, rule_format,
      OF assms]
  show ?thesis
    using n by (cases d) simp_all
qed

lemma calls_and_then_st:
  assumes "\<forall>c\<in>set (snd (fst (m s))). P c"
    and "\<And>a s'. fst (fst (m s)) = Inr a \<Longrightarrow> \<forall>c\<in>set (snd (fst (f a s'))). P c"
  shows "\<forall>c\<in>set (snd (fst (and_then_st m f s))). P c"
proof -
  obtain r0 cs s' where m: "m s = ((r0, cs), s')"
    by (metis prod.exhaust)
  show ?thesis
  proof (cases r0)
    case (Inl e)
    with m assms(1) show ?thesis by (simp add: and_then_st_def)
  next
    case (Inr a)
    with m assms(1) assms(2) [of a s'] show ?thesis
      by (auto simp: and_then_st_def split: prod.splits)
  qed
qed

lemma calls_no_call_st: "\<forall>c\<in>set (snd (fst (no_call_st r s))). P c"
  by (simp add: no_call_st_def)

lemma calls_transform_st:
  "\<forall>c\<in>set (snd (fst (transform_st d (vectorizer_of M d) data s))). on_loaded M c"
  by (simp add: transform_st_def on_loaded_def split: option.splits prod.splits)

lemma calls_predict_proba_st:
  "fst (fst (transform_st d (vectorizer_of M d) data s)) = Inr vect \<Longrightarrow>
   \<forall>c\<in>set (snd (fst (predict_proba_st d (model_of M d) vect s'))). on_loaded M c"
  by (auto simp: transform_st_def predict_proba_st_def on_loaded_def
      split: option.splits prod.splits)

lemma get_try_st_calls:
  "\<forall>c\<in>set (snd (fst (get_try_st M text data s))). on_loaded M c"
  unfolding get_try_st_def globals_of Let_def
  by (intro calls_and_then_st calls_transform_st calls_no_call_st; erule calls_predict_proba_st)

lemma get_st_nonempty:
  assumes "args ''text'' = Some text" "strip text \<noteq> []"
  shows "fst (get_st M args s) =
     ((case fst (fst (get_try_st M (strip text) [strip text] s)) of
         Inr body \<Rightarrow> (ReportBody body, 200)
       | Inl e \<Rightarrow> (ErrorBody (''Error during prediction: '' @ str_exn e), 500)),
      snd (fst (get_try_st M (strip text) [strip text] s)))"
  using assms by (simp add: get_st_def args_get_def Let_def split: prod.splits sum.splits)

lemma get_st_unloaded:
  assumes "vectorizer_of M d = None \<or> model_of M d = None"
    and "args ''text'' = Some text" "strip text \<noteq> []"
  shows "\<exists>e. fst (fst (get_st M args s)) =
           (ErrorBody (''Error during prediction: '' @ str_exn e), 500)"
proof (cases "fst (fst (get_try_st M (strip text) [strip text] s))")
  case (Inl e)
  then show ?thesis
    using assms(2,3) by (auto simp: get_st_nonempty)
next
  case (Inr b)
  from get_try_st_Inr_loaded [OF this, of d] assms(1) have False
    by auto
  then show ?thesis ..
qed

lemma get_st_calls_loaded:
  assumes "args ''text'' = Some text" "strip text \<noteq> []"
  shows "\<forall>c\<in>set (snd (fst (get_st M args s))). on_loaded M c"
  using assms get_try_st_calls [of M "strip text" "[strip text]" s]
  by (simp add: get_st_nonempty)

text \<open>
  C4, as the code has it. If the vectorizer or the model of a dimension failed to load at
  startup, then every request with a non-empty trimmed text, in whatever state earlier
  requests left the objects, is answered with status 500 and the body
  \<open>Error during prediction: ...\<close>, never with a report, and so is the request that
  follows it; the model of that dimension is never called; and if it is the vectorizer
  that failed to load, the vectorizer of that dimension is never called either.
\<close>

theorem unavailable_dimension_fails:
  fixes M :: "('s, 'v) stateful_models"
  assumes "isl (unpickle_vect (vect_path d)) \<or> isl (unpickle_model (model_path d))"
    and "M = load_models unpickle_vect unpickle_model"
    and "args ''text'' = Some text" "strip text \<noteq> []"
  shows "(\<exists>e. fst (fst (get_st M args s)) =
            (ErrorBody (''Error during prediction: '' @ str_exn e), 500)) \<and>
         (\<exists>e. fst (fst (get_st M args (snd (get_st M args s)))) =
            (ErrorBody (''Error during prediction: '' @ str_exn e), 500)) \<and>
         (\<forall>vect. PredictProba d vect \<notin> set (snd (fst (get_st M args s)))) \<and>
         (isl (unpickle_vect (vect_path d)) \<longrightarrow>
            (\<forall>dat. Transform d dat \<notin> set (snd (fst (get_st M args s)))))"
proof -
  from assms(1) have u: "vectorizer_of M d = None \<or> model_of M d = None"
    unfolding assms(2) vectorizer_of_load_models model_of_load_models
    by (auto simp: isl_def)
  from u assms(3,4)
  have 1: "\<exists>e. fst (fst (get_st M args s')) =
            (ErrorBody (''Error during prediction: '' @ str_exn e), 500)" for s'
    by (rule get_st_unloaded)
  have l: "\<forall>c\<in>set (snd (fst (get_st M args s))). on_loaded M c"
    using assms(3,4) by (rule get_st_calls_loaded)
  have 2: "PredictProba d vect \<notin> set (snd (fst (get_st M args s)))" for vect
  proof
    assume "PredictProba d vect \<in> set (snd (fst (get_st M args s)))"
    with l have "on_loaded M (PredictProba d vect)" by blast
    with u show False by (auto simp: on_loaded_def)
  qed
  have 3: "Transform d dat \<notin> set (snd (fst (get_st M args s)))"
    if "isl (unpickle_vect (vect_path d))" for dat
  proof
    assume "Transform d dat \<in> set (snd (fst (get_st M args s)))"
    with l have "on_loaded M (Transform d dat :: 'v call)" by blast
    moreover from that have "vectorizer_of M d = None"
      unfolding assms(2) vectorizer_of_load_models by (auto simp: isl_def)
    ultimately show False by (simp add: on_loaded_def)
  qed
  from 1 [of s] 1 [of "snd (get_st M args s)"] 2 3 show ?thesis by blast
qed

theorem unavailable_dimension_fails_witness:
  "isl (lost_vect_unpickle (vect_path Threat)) \<and>
   (\<exists>e. fst (fst (get_st (load_models lost_vect_unpickle kept_model_unpickle)
                  [''text'' \<mapsto> [32, 104, 105, 10]] 0)) =
      (ErrorBody (''Error during prediction: '' @ str_exn e), 500)) \<and>
   (\<exists>e. fst (fst (get_st (load_models lost_vect_unpickle kept_model_unpickle)
                  [''text'' \<mapsto> [32, 104, 105, 10]]
                  (snd (get_st (load_models lost_vect_unpickle kept_model_unpickle)
                          [''text'' \<mapsto> [32, 104, 105, 10]] 0)))) =
      (ErrorBody (''Error during prediction: '' @ str_exn e), 500)) \<and>
   PredictProba Threat 9 \<notin>
     set (snd (fst (get_st (load_models lost_vect_unpickle kept_model_unpickle)
                      [''text'' \<mapsto> [32, 104, 105, 10]] 0))) \<and>
   Transform Threat [[104, 105]] \<notin>
     set (snd (fst (get_st (load_models lost_vect_unpickle kept_model_unpickle)
                      [''text'' \<mapsto> [32, 104, 105, 10]] 0)))"
proof -
  have h: "isl (lost_vect_unpickle (vect_path Threat))"
    by (simp add: lost_vect_unpickle_def vect_path_def model_dir_def)
  then have h': "isl (lost_vect_unpickle (vect_path Threat)) \<or>
      isl (kept_model_unpickle (model_path Threat))"
    by simp
  have a: "[''text'' \<mapsto> [32, 104, 105, 10]] ''text'' = Some [32, 104, 105, 10]"
    "strip [32, 104, 105, 10] \<noteq> []"
    by (simp_all add: strip_example)
  from unavailable_dimension_fails [of lost_vect_unpickle Threat kept_model_unpickle
      "load_models lost_vect_unpickle kept_model_unpickle"
      "[''text'' \<mapsto> [32, 104, 105, 10]]" "[32, 104, 105, 10]" 0, OF h' refl a] h
  show ?thesis by blast
qed

end
